theory Spec2Isabelle
  imports Complex_Main "HOL-Library.Sublist" "HOL-Library.Word"
begin

section \<open>Python values\<close>

text \<open>
  The agents exchange Python dictionaries whose values are JSON-like: a dynamically
  typed value is a \<open>pyval\<close>. A dictionary is an association list (Python dictionaries
  keep insertion order); a float is a rational or one of the three IEEE special values,
  so that rounding is abstracted and the special values are not. Strings are lists of
  8-bit characters.
\<close>

datatype fnum = Finite rat | PInf | NInf | NaN

datatype pyval =
    PNone
  | PBool bool
  | PInt int
  | PFloat fnum
  | PStr string
  | PList "pyval list"
  | PDict "(string \<times> pyval) list"
  | PTimestamp int
  | PNaT

text \<open>Exceptions, each with the text that \<open>str(e)\<close> gives.\<close>

datatype error =
    FileNotFoundError string
  | RuntimeError string
  | ValueError string
  | JSONDecodeError string
  | AttributeError string
  | TypeError string
  | IndexError string
  | OverflowError string
  | RecursionError string
  | PandasError string

fun str_of_error :: "error \<Rightarrow> string" where
  "str_of_error (FileNotFoundError m) = m"
| "str_of_error (RuntimeError m) = m"
| "str_of_error (ValueError m) = m"
| "str_of_error (JSONDecodeError m) = m"
| "str_of_error (AttributeError m) = m"
| "str_of_error (TypeError m) = m"
| "str_of_error (IndexError m) = m"
| "str_of_error (OverflowError m) = m"
| "str_of_error (RecursionError m) = m"
| "str_of_error (PandasError m) = m"

fun type_name :: "pyval \<Rightarrow> string" where
  "type_name PNone = ''NoneType''"
| "type_name (PBool _) = ''bool''"
| "type_name (PInt _) = ''int''"
| "type_name (PFloat _) = ''float''"
| "type_name (PStr _) = ''str''"
| "type_name (PList _) = ''list''"
| "type_name (PDict _) = ''dict''"
| "type_name (PTimestamp _) = ''Timestamp''"
| "type_name PNaT = ''NaTType''"

text \<open>Truth value testing (\<open>not x\<close>, \<open>x or y\<close>).\<close>

fun truthy :: "pyval \<Rightarrow> bool" where
  "truthy PNone = False"
| "truthy (PBool b) = b"
| "truthy (PInt i) = (i \<noteq> 0)"
| "truthy (PFloat (Finite r)) = (r \<noteq> 0)"
| "truthy (PFloat _) = True"
| "truthy (PStr s) = (s \<noteq> [])"
| "truthy (PList xs) = (xs \<noteq> [])"
| "truthy (PDict kvs) = (kvs \<noteq> [])"
| "truthy (PTimestamp _) = True"
| "truthy PNaT = True"

text \<open>\<open>d[k] = v\<close>: an existing key keeps its place, a new key goes last.\<close>

fun dict_set :: "string \<Rightarrow> pyval \<Rightarrow> (string \<times> pyval) list \<Rightarrow> (string \<times> pyval) list" where
  "dict_set k v [] = [(k, v)]"
| "dict_set k v (p # ps) = (if fst p = k then (k, v) # ps else p # dict_set k v ps)"

text \<open>\<open>x.get(k, d)\<close>: only a dictionary has the method.\<close>

fun py_get :: "pyval \<Rightarrow> string \<Rightarrow> pyval \<Rightarrow> error + pyval" where
  "py_get (PDict kvs) k d = Inr (case map_of kvs k of Some v \<Rightarrow> v | None \<Rightarrow> d)"
| "py_get v k d = Inl (AttributeError (type_name v @ '' object has no attribute get''))"


text \<open>\<open>x[:n]\<close>: lists and strings are sliced, everything else raises.\<close>

fun py_slice :: "nat \<Rightarrow> pyval \<Rightarrow> error + pyval" where
  "py_slice n (PList xs) = Inr (PList (take n xs))"
| "py_slice n (PStr s) = Inr (PStr (take n s))"
| "py_slice n v = Inl (TypeError (type_name v @ '' object is not subscriptable''))"

text \<open>\<open>for x in v\<close>: the items a loop visits.\<close>

fun py_iter :: "pyval \<Rightarrow> error + pyval list" where
  "py_iter (PList xs) = Inr xs"
| "py_iter (PStr s) = Inr (map (\<lambda>c. PStr [c]) s)"
| "py_iter (PDict kvs) = Inr (map (\<lambda>p. PStr (fst p)) kvs)"
| "py_iter v = Inl (TypeError (type_name v @ '' object is not iterable''))"

text \<open>
  A format specification for numbers (\<open>:.4f\<close>, \<open>:.2%\<close>) accepts \<open>int\<close>, \<open>bool\<close> and
  \<open>float\<close>, and a timestamp takes it for a date format; the text it produces is not
  modelled, only whether it raises. An \<open>int\<close> is converted to a float first, which
  raises when it rounds to a value beyond the largest double \<open>2^1024 - 2^971\<close>.
\<close>

definition float_convertible :: "int \<Rightarrow> bool" where
  "float_convertible i = (\<bar>i\<bar> < 2 ^ 1024 - 2 ^ 970)"

fun py_format_number :: "pyval \<Rightarrow> error + unit" where
  "py_format_number (PInt i) =
     (if float_convertible i then Inr ()
      else Inl (OverflowError ''int too large to convert to float''))"
| "py_format_number (PBool _) = Inr ()"
| "py_format_number (PFloat _) = Inr ()"
| "py_format_number (PTimestamp _) = Inr ()"
| "py_format_number (PStr _) = Inl (ValueError ''Unknown format code for object of type str'')"
| "py_format_number PNaT = Inl (ValueError ''NaTType does not support strftime'')"
| "py_format_number v = Inl (TypeError (''unsupported format string passed to '' @ type_name v))"

text \<open>\<open>xs[i]\<close> on a Python list.\<close>

definition py_index :: "'a list \<Rightarrow> nat \<Rightarrow> error + 'a" where
  "py_index xs i = (if i < length xs then Inr (xs ! i) else Inl (IndexError ''list index out of range''))"

section \<open>Strings\<close>

text \<open>\<open>sub in s\<close>.\<close>

fun contains :: "string \<Rightarrow> string \<Rightarrow> bool" where
  "contains sub [] = (sub = [])"
| "contains sub (c # cs) = (prefix sub (c # cs) \<or> contains sub cs)"

text \<open>
  \<open>s.split(sep)\<close> for a non-empty separator: the occurrences of \<open>sep\<close> are found from
  the left and do not overlap; \<open>acc\<close> holds the current piece, reversed.
\<close>

function split_acc :: "string \<Rightarrow> string \<Rightarrow> string \<Rightarrow> string list" where
  "split_acc sep acc s =
     (if s = [] then [rev acc]
      else if sep \<noteq> [] \<and> prefix sep s then rev acc # split_acc sep [] (drop (length sep) s)
      else split_acc sep (hd s # acc) (tl s))"
  by pat_completeness auto
termination
  by (relation "measure (\<lambda>(sep, acc, s). length s)") (auto simp: neq_Nil_conv)

definition py_split :: "string \<Rightarrow> string \<Rightarrow> string list" where
  "py_split sep s = split_acc sep [] s"

text \<open>\<open>s.strip()\<close>: the characters below 256 that \<open>str.isspace\<close> accepts.\<close>

definition isspace :: "char \<Rightarrow> bool" where
  "isspace c = (of_char c \<in> {9, 10, 11, 12, 13, 28, 29, 30, 31, 32, 133, 160 :: nat})"

definition strip :: "string \<Rightarrow> string" where
  "strip s = rev (dropWhile isspace (rev (dropWhile isspace s)))"

section \<open>A JSON reader\<close>

text \<open>
  \<open>json.loads\<close> is a library function: the extractor below takes it as a parameter
  \<open>loads\<close>, which returns the parsed value or the exception it raises. That is a
  \<open>JSONDecodeError\<close> for a text that is not JSON, and can be another exception (a plain
  \<open>ValueError\<close> for a numeral beyond the digit limit of the interpreter, a
  \<open>RecursionError\<close> for a nesting too deep). \<open>json_loads\<close> is a reader for the fragment
  of JSON without string escapes, fractions and exponents (it rejects those) and
  without these two limits; it is the instance the concrete evaluations use, and its
  two messages stand for the messages of the decoder. The fuel bounds the nesting depth
  plus the number of items, and the length of the text is enough.
\<close>

definition json_ws :: "char \<Rightarrow> bool" where
  "json_ws c = (of_char c \<in> {32, 9, 10, 13 :: nat})"

definition skip_ws :: "string \<Rightarrow> string" where
  "skip_ws s = dropWhile json_ws s"

definition is_digit :: "char \<Rightarrow> bool" where
  "is_digit c = (48 \<le> (of_char c :: nat) \<and> (of_char c :: nat) \<le> 57)"

fun scan_string :: "string \<Rightarrow> string \<Rightarrow> (string \<times> string) option" where
  "scan_string acc [] = None"
| "scan_string acc (c # cs) =
     (if c = CHR 0x22 then Some (rev acc, cs)
      else if c = CHR 0x5C \<or> (of_char c :: nat) < 32 then None
      else scan_string (c # acc) cs)"

fun scan_digits :: "nat \<Rightarrow> string \<Rightarrow> nat \<times> string" where
  "scan_digits n [] = (n, [])"
| "scan_digits n (c # cs) =
     (if is_digit c then scan_digits (10 * n + (of_char c - 48)) cs else (n, c # cs))"

definition scan_number :: "string \<Rightarrow> (pyval \<times> string) option" where
  "scan_number s =
     (let neg = (s \<noteq> [] \<and> hd s = CHR ''-'');
          r = (if neg then tl s else s)
      in if r = [] \<or> \<not> is_digit (hd r) then None
         else let (n, rest) = (if hd r = CHR ''0'' then (0, tl r) else scan_digits 0 r)
              in if rest \<noteq> [] \<and> hd rest \<in> {CHR ''.'', CHR ''e'', CHR ''E''} then None
                 else Some (PInt (if neg then - int n else int n), rest))"

definition expect :: "char \<Rightarrow> string \<Rightarrow> string option" where
  "expect c s = (case skip_ws s of [] \<Rightarrow> None | d # r \<Rightarrow> if d = c then Some r else None)"

fun parse_value :: "nat \<Rightarrow> string \<Rightarrow> (pyval \<times> string) option"
  and parse_elements :: "nat \<Rightarrow> pyval list \<Rightarrow> string \<Rightarrow> (pyval \<times> string) option"
  and parse_members :: "nat \<Rightarrow> (string \<times> pyval) list \<Rightarrow> string \<Rightarrow> (pyval \<times> string) option"
where
  "parse_value 0 s = None"
| "parse_value (Suc n) s =
     (case skip_ws s of
        [] \<Rightarrow> None
      | c # cs \<Rightarrow>
          if c = CHR 0x22 then
            (case scan_string [] cs of None \<Rightarrow> None | Some (str, rest) \<Rightarrow> Some (PStr str, rest))
          else if c = CHR ''['' then
            (case expect CHR '']'' cs of Some rest \<Rightarrow> Some (PList [], rest)
             | None \<Rightarrow> parse_elements n [] cs)
          else if c = CHR ''{'' then
            (case expect CHR ''}'' cs of Some rest \<Rightarrow> Some (PDict [], rest)
             | None \<Rightarrow> parse_members n [] cs)
          else if prefix ''true'' (c # cs) then Some (PBool True, drop 4 (c # cs))
          else if prefix ''false'' (c # cs) then Some (PBool False, drop 5 (c # cs))
          else if prefix ''null'' (c # cs) then Some (PNone, drop 4 (c # cs))
          else if prefix ''NaN'' (c # cs) then Some (PFloat NaN, drop 3 (c # cs))
          else if prefix ''Infinity'' (c # cs) then Some (PFloat PInf, drop 8 (c # cs))
          else if prefix ''-Infinity'' (c # cs) then Some (PFloat NInf, drop 9 (c # cs))
          else scan_number (c # cs))"
| "parse_elements 0 acc s = None"
| "parse_elements (Suc n) acc s =
     (case parse_value n s of
        None \<Rightarrow> None
      | Some (v, rest) \<Rightarrow>
          (case expect CHR '','' rest of
             Some rest' \<Rightarrow> parse_elements n (v # acc) rest'
           | None \<Rightarrow>
               (case expect CHR '']'' rest of
                  Some rest' \<Rightarrow> Some (PList (rev (v # acc)), rest')
                | None \<Rightarrow> None)))"
| "parse_members 0 acc s = None"
| "parse_members (Suc n) acc s =
     (case expect CHR 0x22 s of
        None \<Rightarrow> None
      | Some cs \<Rightarrow>
          (case scan_string [] cs of
             None \<Rightarrow> None
           | Some (k, rest) \<Rightarrow>
               (case expect CHR '':'' rest of
                  None \<Rightarrow> None
                | Some rest1 \<Rightarrow>
                    (case parse_value n rest1 of
                       None \<Rightarrow> None
                     | Some (v, rest2) \<Rightarrow>
                         (case expect CHR '','' rest2 of
                            Some r \<Rightarrow> parse_members n (dict_set k v acc) r
                          | None \<Rightarrow>
                              (case expect CHR ''}'' rest2 of
                                 Some r \<Rightarrow> Some (PDict (dict_set k v acc), r)
                               | None \<Rightarrow> None))))))"

definition json_loads :: "string \<Rightarrow> error + pyval" where
  "json_loads s =
     (case parse_value (Suc (Suc (length s))) s of
        None \<Rightarrow> Inl (JSONDecodeError ''Expecting value'')
      | Some (v, rest) \<Rightarrow>
          if skip_ws rest = [] then Inr v else Inl (JSONDecodeError ''Extra data''))"

section \<open>The structured extractor (agents/base.py)\<close>

text \<open>
  The extraction of \<open>LLMClient.generate_json\<close> (the \<open>try\<close> statement after the call of
  \<open>generate\<close>). The handler is \<open>except json.JSONDecodeError\<close>: only that exception of
  the direct parse is caught, any other leaves the function. The parse of a fenced
  block happens inside the handler and is not guarded, so every exception of it leaves
  the function.
\<close>

fun is_decode_error :: "error \<Rightarrow> bool" where
  "is_decode_error (JSONDecodeError m) = True"
| "is_decode_error e = False"

definition fenced_interior :: "string \<Rightarrow> string \<Rightarrow> error + string" where
  "fenced_interior fence response =
     (case py_index (py_split fence response) 1 of
        Inl e \<Rightarrow> Inl e
      | Inr after \<Rightarrow>
          (case py_index (py_split ''```'' after) 0 of
             Inl e \<Rightarrow> Inl e
           | Inr inside \<Rightarrow> Inr (strip inside)))"

definition generate_json_extract :: "(string \<Rightarrow> error + pyval) \<Rightarrow> string \<Rightarrow> error + pyval" where
  "generate_json_extract lds response =
     (case lds response of
        Inr v \<Rightarrow> Inr v
      | Inl e \<Rightarrow>
          if \<not> is_decode_error e then Inl e
          else if contains ''```json'' response then
            (case fenced_interior ''```json'' response of
               Inl e' \<Rightarrow> Inl e'
             | Inr json_str \<Rightarrow> lds json_str)
          else if contains ''```'' response then
            (case fenced_interior ''```'' response of
               Inl e' \<Rightarrow> Inl e'
             | Inr json_str \<Rightarrow> lds json_str)
          else Inl (ValueError (''Could not parse JSON from response: '' @ take 200 response)))"

declare split_acc.simps [simp del]

text \<open>
  The three wrappings of a serialized record the specification speaks of: the bare text,
  a fenced block labelled \<open>json\<close>, and a fenced block without a label, in the usual
  layout with the fences on lines of their own.
\<close>

definition fence_labeled :: "string \<Rightarrow> string" where
  \<open>fence_labeled s = ''```json'' @ [CHR 0x0A] @ s @ [CHR 0x0A] @ ''```''\<close>

definition fence_unlabeled :: "string \<Rightarrow> string" where
  \<open>fence_unlabeled s = ''```'' @ [CHR 0x0A] @ s @ [CHR 0x0A] @ ''```''\<close>

section \<open>The dataset (utils/data.py)\<close>

text \<open>
  One row of the CSV file, after \<open>pd.to_datetime\<close>: the date is a point on the time
  line. The columns of counts are \<open>int64\<close> columns: a count is a 64-bit word read as a
  signed number (\<open>sint\<close>), and sums of counts wrap around as the sums of the library
  do. The float columns hold finite numbers, as rationals (rounding and the overflow of
  floats are abstracted). A file with missing or malformed cells is outside this type;
  \<open>Unreadable m\<close> is a file on which \<open>pd.read_csv\<close> or the conversion of the dates raises
  with message \<open>m\<close>.
\<close>

record row =
  campaign_name :: string
  adset_name :: string
  date :: int
  spend :: rat
  impressions :: "64 word"
  clicks :: "64 word"
  purchases :: "64 word"
  revenue :: rat
  ctr :: rat
  roas :: rat
  creative_type :: string
  creative_message :: string
  audience_type :: string
  country :: string

datatype csv = Rows "row list" | Unreadable string

text \<open>
  Float division as pandas does it on columns: no exception, a zero denominator gives
  an infinity or NaN.
\<close>

definition fdiv :: "rat \<Rightarrow> rat \<Rightarrow> fnum" where
  "fdiv a b =
     (if b \<noteq> 0 then Finite (a / b)
      else if a > 0 then PInf
      else if a < 0 then NInf
      else NaN)"

text \<open>\<open>Series.mean()\<close>, \<open>min()\<close>, \<open>max()\<close>: NaN on an empty column.\<close>

definition mean :: "rat list \<Rightarrow> fnum" where
  "mean xs = (if xs = [] then NaN else Finite (sum_list xs / of_nat (length xs)))"

definition col_min :: "rat list \<Rightarrow> fnum" where
  "col_min xs = (if xs = [] then NaN else Finite (Min (set xs)))"

definition col_max :: "rat list \<Rightarrow> fnum" where
  "col_max xs = (if xs = [] then NaN else Finite (Max (set xs)))"

definition date_min :: "int list \<Rightarrow> pyval" where
  "date_min ds = (if ds = [] then PNaT else PTimestamp (Min (set ds)))"

definition date_max :: "int list \<Rightarrow> pyval" where
  "date_max ds = (if ds = [] then PNaT else PTimestamp (Max (set ds)))"

text \<open>\<open>Series.unique()\<close>: the distinct values in the order of their first appearance.\<close>

definition unique :: "'a list \<Rightarrow> 'a list" where
  "unique xs = rev (remdups (rev xs))"

text \<open>\<open>df.head(n)\<close>: a negative \<open>n\<close> leaves out the last \<open>-n\<close> rows.\<close>

definition head :: "int \<Rightarrow> 'a list \<Rightarrow> 'a list" where
  "head n xs = (if 0 \<le> n then take (nat n) xs else take (length xs - nat (- n)) xs)"

subsection \<open>DataSummary\<close>

definition generate_summary :: "row list \<Rightarrow> pyval" where
  "generate_summary df = PDict
     [(''row_count'', PInt (int (length df))),
      (''date_range'', PDict
         [(''start'', date_min (map date df)),
          (''end'', date_max (map date df))]),
      (''campaigns'', PList (map PStr (unique (map campaign_name df)))),
      (''adsets'', PList (map PStr (unique (map adset_name df)))),
      (''creative_types'', PList (map PStr (unique (map creative_type df)))),
      (''audience_types'', PList (map PStr (unique (map audience_type df)))),
      (''countries'', PList (map PStr (unique (map country df)))),
      (''performance_metrics'', PDict
         [(''total_spend'', PFloat (Finite (sum_list (map spend df)))),
          (''total_impressions'', PInt (sint (sum_list (map impressions df)))),
          (''total_clicks'', PInt (sint (sum_list (map clicks df)))),
          (''total_purchases'', PInt (sint (sum_list (map purchases df)))),
          (''total_revenue'', PFloat (Finite (sum_list (map revenue df)))),
          (''avg_ctr'', PFloat (mean (map ctr df))),
          (''avg_roas'', PFloat (mean (map roas df))),
          (''min_roas'', PFloat (col_min (map roas df))),
          (''max_roas'', PFloat (col_max (map roas df)))])]"

subsection \<open>DataLoader\<close>

record DataLoader =
  dataset_path :: string
  sample_mode :: bool
  sample_size :: int
  loader_df :: "row list option"

definition DataLoader_init :: "string \<Rightarrow> bool \<Rightarrow> int \<Rightarrow> DataLoader" where
  "DataLoader_init path mode size' =
     \<lparr>dataset_path = path, sample_mode = mode, sample_size = size', loader_df = None\<rparr>"

text \<open>
  \<open>load\<close>: the rows sorted by date (the order of rows of one date is the library's
  choice; the stable order stands for it), cut to the first rows in sample mode.
\<close>

definition load :: "(string \<Rightarrow> csv option) \<Rightarrow> DataLoader \<Rightarrow> (error + row list) \<times> DataLoader" where
  "load files dl =
     (case files (dataset_path dl) of
        None \<Rightarrow> (Inl (FileNotFoundError (''Dataset not found: '' @ dataset_path dl)), dl)
      | Some (Unreadable m) \<Rightarrow> (Inl (PandasError m), dl)
      | Some (Rows rs) \<Rightarrow>
          (let sorted_rows = sort_key date rs;
               df = (if sample_mode dl then head (sample_size dl) sorted_rows else sorted_rows)
           in (Inr df, dl\<lparr>loader_df := Some df\<rparr>)))"

text \<open>The guard \<open>if self.df is None: self.load()\<close> that opens every query of the loader.\<close>

definition ensure_loaded :: "(string \<Rightarrow> csv option) \<Rightarrow> DataLoader \<Rightarrow> (error + row list) \<times> DataLoader" where
  "ensure_loaded files dl =
     (case loader_df dl of
        Some df \<Rightarrow> (Inr df, dl)
      | None \<Rightarrow> load files dl)"

definition get_summary :: "(string \<Rightarrow> csv option) \<Rightarrow> DataLoader \<Rightarrow> (error + pyval) \<times> DataLoader" where
  "get_summary files dl =
     (case ensure_loaded files dl of
        (Inl e, dl') \<Rightarrow> (Inl e, dl')
      | (Inr df, dl') \<Rightarrow> (Inr (generate_summary df), dl'))"

definition filter_low_ctr :: "(string \<Rightarrow> csv option) \<Rightarrow> DataLoader \<Rightarrow> rat \<Rightarrow> (error + row list) \<times> DataLoader" where
  "filter_low_ctr files dl threshold =
     (case ensure_loaded files dl of
        (Inl e, dl') \<Rightarrow> (Inl e, dl')
      | (Inr df, dl') \<Rightarrow> (Inr (filter (\<lambda>r. ctr r < threshold) df), dl'))"

text \<open>
  \<open>get_roas_timeline\<close>. \<open>groupby('date').agg(sum)\<close> gives one line per date, the dates
  ascending, each column summed over the rows of the date (the counts in 64-bit
  arithmetic); the two ratio columns are then computed from the summed columns, the
  counts converted to floats.
\<close>

record daily =
  day :: int
  day_spend :: rat
  day_revenue :: rat
  day_impressions :: "64 word"
  day_clicks :: "64 word"

record timeline_entry = daily +
  day_roas :: fnum
  day_ctr :: fnum

definition groupby_date_sum :: "row list \<Rightarrow> daily list" where
  "groupby_date_sum df =
     map (\<lambda>d. let g = filter (\<lambda>r. date r = d) df
              in \<lparr>day = d,
                  day_spend = sum_list (map spend g),
                  day_revenue = sum_list (map revenue g),
                  day_impressions = sum_list (map impressions g),
                  day_clicks = sum_list (map clicks g)\<rparr>)
         (sort (remdups (map date df)))"

definition with_ratios :: "daily \<Rightarrow> timeline_entry" where
  "with_ratios g =
     \<lparr>day = day g, day_spend = day_spend g, day_revenue = day_revenue g,
      day_impressions = day_impressions g, day_clicks = day_clicks g,
      day_roas = fdiv (day_revenue g) (day_spend g),
      day_ctr = fdiv (of_int (sint (day_clicks g))) (of_int (sint (day_impressions g)))\<rparr>"

definition get_roas_timeline :: "(string \<Rightarrow> csv option) \<Rightarrow> DataLoader \<Rightarrow> (error + timeline_entry list) \<times> DataLoader" where
  "get_roas_timeline files dl =
     (case ensure_loaded files dl of
        (Inl e, dl') \<Rightarrow> (Inl e, dl')
      | (Inr df, dl') \<Rightarrow> (Inr (map with_ratios (groupby_date_sum df)), dl'))"

text \<open>\<open>to_dict('records')\<close> of the timeline.\<close>

definition timeline_record :: "timeline_entry \<Rightarrow> pyval" where
  "timeline_record e = PDict
     [(''date'', PTimestamp (day e)),
      (''spend'', PFloat (Finite (day_spend e))),
      (''revenue'', PFloat (Finite (day_revenue e))),
      (''impressions'', PInt (sint (day_impressions e))),
      (''clicks'', PInt (sint (day_clicks e))),
      (''roas'', PFloat (day_roas e)),
      (''ctr'', PFloat (day_ctr e))]"

definition creative_stats :: "row list \<Rightarrow> string \<Rightarrow> string \<times> pyval" where
  "creative_stats df t =
     (let subset = filter (\<lambda>r. creative_type r = t) df
      in (t, PDict
           [(''avg_ctr'', PFloat (mean (map ctr subset))),
            (''avg_roas'', PFloat (mean (map roas subset))),
            (''count'', PInt (int (length subset)))]))"

definition get_creative_performance :: "(string \<Rightarrow> csv option) \<Rightarrow> DataLoader \<Rightarrow> (error + pyval) \<times> DataLoader" where
  "get_creative_performance files dl =
     (case ensure_loaded files dl of
        (Inl e, dl') \<Rightarrow> (Inl e, dl')
      | (Inr df, dl') \<Rightarrow>
          (Inr (PDict (map (creative_stats df) (unique (map creative_type df)))), dl'))"

text \<open>A row for the examples: the columns the queries read, the others fixed.\<close>

definition example_row :: "string \<Rightarrow> int \<Rightarrow> rat \<Rightarrow> rat \<Rightarrow> 64 word \<Rightarrow> 64 word \<Rightarrow> rat \<Rightarrow> row" where
  "example_row campaign d s rv imp clk c =
     \<lparr>campaign_name = campaign, adset_name = ''adset'', date = d, spend = s,
      impressions = imp, clicks = clk, purchases = 0, revenue = rv, ctr = c,
      roas = 1, creative_type = ''Image'', creative_message = ''message'',
      audience_type = ''Broad'', country = ''US''\<rparr>"

definition example_files :: "row list \<Rightarrow> string \<Rightarrow> csv option" where
  "example_files rs path = (if path = ''ads.csv'' then Some (Rows rs) else None)"

definition ctr_rows :: "row list" where
  "ctr_rows = [example_row ''A'' 1 10 5 1000 10 (1/100),
               example_row ''B'' 2 10 5 1000 12 (12/1000),
               example_row ''C'' 3 10 5 1000 15 (15/1000)]"




section \<open>The client of the generation service and the base agent (agents/base.py)\<close>

text \<open>
  The world outside the program. \<open>llm n\<close> is the outcome of the \<open>n\<close>-th call of the
  generation service in a run: the text of the response, or the message of the exception
  it raised. The text of a prompt decides nothing else in the program, so prompts are
  not built; what is kept of their assembly is every step of it that can raise: the
  lookups, the number formats, and the two library functions that turn a value into
  text. \<open>dumps\<close> is \<open>json.dumps\<close> with \<open>indent=2, default=str\<close> and \<open>py_str\<close> is the
  plain interpolation of a value into a formatted string (\<open>str\<close>); both can raise on
  a value nested too deep or holding too long a number, depending on the limits of the
  interpreter, so both are parameters. \<open>loads\<close> is \<open>json.loads\<close>, \<open>prompts\<close> holds the
  instruction templates by path, \<open>datasets\<close> the CSV files by path, \<open>now_id\<close> and
  \<open>now_iso\<close> are the readings of the clock.
\<close>

record env =
  llm :: "nat \<Rightarrow> string + string"
  loads :: "string \<Rightarrow> error + pyval"
  dumps :: "pyval \<Rightarrow> error + string"
  py_str :: "pyval \<Rightarrow> error + string"
  prompts :: "string \<Rightarrow> string option"
  datasets :: "string \<Rightarrow> csv option"
  now_id :: string
  now_iso :: string

text \<open>
  What a run changes: the number of calls of the generation service made so far, the
  two attributes of the data agent, and the trace, the results and the files written
  by the orchestrator (a file that was opened and whose writing raised holds \<open>None\<close>).
  The execution history of an agent is written and never read; it is left out.
\<close>

type_synonym pydict = "(string \<times> pyval) list"

record world =
  calls :: nat
  data_loader :: "DataLoader option"
  agent_df :: "row list option"
  execution_trace :: "pyval list"
  results :: "(string \<times> pydict) list"
  written :: "(string \<times> pyval option) list"

text \<open>\<open>d.get(k, default)\<close> on a value known to be a dictionary.\<close>

definition dget :: "pydict \<Rightarrow> string \<Rightarrow> pyval \<Rightarrow> pyval" where
  "dget d k dflt = (case map_of d k of Some v \<Rightarrow> v | None \<Rightarrow> dflt)"

text \<open>\<open>LLMClient.generate\<close>: every exception of the service becomes a \<open>RuntimeError\<close>.\<close>

definition generate :: "env \<Rightarrow> world \<Rightarrow> (error + string) \<times> world" where
  "generate E w =
     (case llm E (calls w) of
        Inr response \<Rightarrow> (Inr response, w\<lparr>calls := Suc (calls w)\<rparr>)
      | Inl m \<Rightarrow> (Inl (RuntimeError (''LLM generation failed: '' @ m)), w\<lparr>calls := Suc (calls w)\<rparr>))"

definition generate_json :: "env \<Rightarrow> world \<Rightarrow> (error + pyval) \<times> world" where
  "generate_json E w =
     (case generate E w of
        (Inl e, w') \<Rightarrow> (Inl e, w')
      | (Inr response, w') \<Rightarrow> (generate_json_extract (loads E) response, w'))"


text \<open>
  \<open>BaseAgent.think_json\<close>: the sampling parameters are looked up in the configuration of
  the agent (which raises when that is not a dictionary), then the service is called.
\<close>

definition think_json :: "env \<Rightarrow> pyval \<Rightarrow> pyval \<Rightarrow> world \<Rightarrow> (error + pyval) \<times> world" where
  "think_json E cfg temperature w =
     (case (if truthy temperature then Inr temperature
            else py_get cfg ''temperature'' (PFloat (Finite (7/10)))) of
        Inl e \<Rightarrow> (Inl e, w)
      | Inr temp \<Rightarrow>
          (case py_get cfg ''max_tokens'' (PInt 2048) of
             Inl e \<Rightarrow> (Inl e, w)
           | Inr max_tokens \<Rightarrow> generate_json E w))"

text \<open>\<open>open(path).read()\<close> of an instruction template.\<close>

definition read_prompt :: "env \<Rightarrow> string \<Rightarrow> error + string" where
  "read_prompt E path =
     (case prompts E path of
        None \<Rightarrow> Inl (FileNotFoundError (''[Errno 2] No such file or directory: '' @ path))
      | Some content \<Rightarrow> Inr content)"

section \<open>The planner (agents/planner.py)\<close>

definition create_fallback_plan :: "string \<Rightarrow> pydict \<Rightarrow> pyval" where
  "create_fallback_plan task context = PDict
     [(''query'', PStr task),
      (''analysis_type'', PStr ''holistic''),
      (''subtasks'', PList
         [PDict
            [(''id'', PStr ''task_1''),
             (''title'', PStr ''Load and summarize dataset''),
             (''description'', PStr ''Aggregate performance metrics by campaign, adset, and creative type''),
             (''data_requirements'', PList [PStr ''campaign_summary'', PStr ''creative_performance'', PStr ''timeline'']),
             (''owner_agent'', PStr ''data_agent'')],
          PDict
            [(''id'', PStr ''task_2''),
             (''title'', PStr ''Generate performance hypotheses''),
             (''description'', PStr ''Create 3-5 testable hypotheses explaining observed patterns''),
             (''data_requirements'', PList [PStr ''performance_trends'', PStr ''segment_analysis'']),
             (''owner_agent'', PStr ''insight_agent'')],
          PDict
            [(''id'', PStr ''task_3''),
             (''title'', PStr ''Validate hypotheses quantitatively''),
             (''description'', PStr ''Test hypotheses with statistical evidence and assign confidence scores''),
             (''data_requirements'', PList [PStr ''all_metrics'']),
             (''owner_agent'', PStr ''evaluator'')],
          PDict
            [(''id'', PStr ''task_4''),
             (''title'', PStr ''Generate creative recommendations''),
             (''description'', PStr ''Create new messaging for low-CTR campaigns based on winning patterns''),
             (''data_requirements'', PList [PStr ''low_ctr_campaigns'', PStr ''high_ctr_examples'']),
             (''owner_agent'', PStr ''creative_generator'')]]),
      (''key_metrics'', PList
         [PStr ''roas'', PStr ''ctr'', PStr ''spend'', PStr ''revenue'', PStr ''impressions'', PStr ''clicks'']),
      (''success_criteria'', PList
         [PStr ''Load and summarize complete dataset'',
          PStr ''Generate at least 3 data-grounded hypotheses'',
          PStr ''Validate hypotheses with >0.6 confidence'',
          PStr ''Generate 3-5 creative recommendations per low-CTR campaign'']),
      (''reasoning'', PStr ''Standard analysis pipeline for ad performance diagnosis'')]"

definition planner_execute :: "env \<Rightarrow> pyval \<Rightarrow> string \<Rightarrow> pydict \<Rightarrow> world \<Rightarrow> (error + pydict) \<times> world" where
  "planner_execute E cfg task context w =
     (case read_prompt E ''prompts/planner.md'' of
        Inl e \<Rightarrow> (Inl e, w)
      | Inr system_prompt \<Rightarrow>
     (case dumps E (PDict context) of
        Inl e \<Rightarrow> (Inl e, w)
      | Inr context_text \<Rightarrow>
          (case think_json E cfg (PFloat (Finite (3/10))) w of
             (Inr plan_response, w') \<Rightarrow>
               (Inr [(''status'', PStr ''success''),
                     (''plan'', plan_response),
                     (''task'', PStr task)], w')
           | (Inl e, w') \<Rightarrow>
               (Inr [(''status'', PStr ''partial''),
                     (''plan'', create_fallback_plan task context),
                     (''error'', PStr (str_of_error e))], w'))))"

section \<open>The insight agent (agents/insight_agent.py)\<close>

definition fallback_hypothesis ::
  "string \<Rightarrow> string \<Rightarrow> string \<Rightarrow> string \<Rightarrow> string \<Rightarrow> string list \<Rightarrow> rat \<Rightarrow> string \<Rightarrow> pyval" where
  "fallback_hypothesis hid title description driver prediction evidence confidence reasoning = PDict
     [(''id'', PStr hid),
      (''title'', PStr title),
      (''description'', PStr description),
      (''driver'', PStr driver),
      (''testable_prediction'', PStr prediction),
      (''supporting_evidence'', PList (map PStr evidence)),
      (''confidence'', PFloat (Finite confidence)),
      (''confidence_reasoning'', PStr reasoning)]"

definition priority_entry :: "string \<Rightarrow> rat \<Rightarrow> string \<Rightarrow> pyval" where
  "priority_entry hid score reason = PDict
     [(''hypothesis_id'', PStr hid),
      (''priority_score'', PFloat (Finite score)),
      (''reason'', PStr reason)]"

definition create_fallback_hypotheses :: "string \<Rightarrow> pydict \<Rightarrow> pyval" where
  "create_fallback_hypotheses task context = PDict
     [(''query_summary'', PStr task),
      (''hypotheses'', PList
         [fallback_hypothesis ''h1'' ''Audience Fatigue''
            ''Repeated exposure to the same creative leads to CTR and ROAS decline over time''
            ''Audience Fatigue''
            ''CTR should decrease over time within same audience-creative pairs; ROAS should drop after initial 7-14 days''
            [''High-performing creatives often show declining CTR patterns'',
             ''Multiple campaigns data available for trend analysis'']
            (75/100)
            ''Audience fatigue is well-documented in digital advertising; data shows multiple time periods to analyze'',
          fallback_hypothesis ''h2'' ''Creative Type Performance Variation''
            ''Different creative types (Image, Video, UGC) perform differently due to attention and engagement patterns''
            ''Creative Decay / Format Effectiveness''
            ''Video and UGC should outperform static images in CTR; VID/UGC should show stronger initial performance but faster decay''
            [''Dataset includes multiple creative types'',
             ''Video typically performs better initially in digital ads'']
            (70/100)
            ''Clear creative type segmentation in data allows validation; format-based performance is predictable'',
          fallback_hypothesis ''h3'' ''Audience Targeting Mismatch''
            ''Broad audiences underperform compared to Lookalike/Interest audiences due to lower relevance''
            ''Audience Targeting Quality''
            ''Lookalike and interest-based audiences should show higher CTR and ROAS than Broad audiences''
            [''Data includes audience type segmentation'',
             ''Marketing principle: more targeted audiences perform better'']
            (72/100)
            ''Audience type is directly measurable; industry standard supports hypothesis'',
          fallback_hypothesis ''h4'' ''Messaging Relevance Impact''
            ''Specific value propositions (functional benefits) outperform generic messaging''
            ''Message Clarity / Value Proposition''
            (''Creatives with specific benefits (e.g., '' @ [CHR 0x27] @ ''breathable'' @ [CHR 0x27] @ '', ''
               @ [CHR 0x27] @ ''no ride-up'' @ [CHR 0x27] @ '') should show higher CTR than generic value statements'')
            [''Creative messages are available for analysis'',
             ''Specific messaging typically performs better in performance marketing'']
            (68/100)
            ''Requires text analysis of creative messages; messaging impact is well-established in marketing'']),
      (''priority_ranking'', PList
         [priority_entry ''h1'' (85/100) ''Audience fatigue is primary driver of ROAS decline'',
          priority_entry ''h3'' (75/100) ''Audience quality directly impacts performance'',
          priority_entry ''h2'' (70/100) ''Creative format variation explains CTR differences'',
          priority_entry ''h4'' (65/100) ''Messaging is secondary but actionable factor'']),
      (''reasoning'', PStr ''Generated template hypotheses based on common ad performance drivers; LLM generation failed'')]"

definition insight_execute :: "env \<Rightarrow> pyval \<Rightarrow> string \<Rightarrow> pydict \<Rightarrow> world \<Rightarrow> (error + pydict) \<times> world" where
  "insight_execute E cfg task context w =
     (case read_prompt E ''prompts/insight_agent.md'' of
        Inl e \<Rightarrow> (Inl e, w)
      | Inr system_prompt \<Rightarrow>
     (case dumps E (PDict context) of
        Inl e \<Rightarrow> (Inl e, w)
      | Inr context_text \<Rightarrow>
          (case think_json E cfg (PFloat (Finite (7/10))) w of
             (Inr hypotheses_response, w') \<Rightarrow>
               (Inr [(''status'', PStr ''success''),
                     (''hypotheses'', hypotheses_response),
                     (''task'', PStr task)], w')
           | (Inl e, w') \<Rightarrow>
               (Inr [(''status'', PStr ''partial''),
                     (''hypotheses'', create_fallback_hypotheses task context),
                     (''error'', PStr (str_of_error e))], w'))))"

section \<open>The evaluator (agents/evaluator.py)\<close>

text \<open>One entry of the fallback evaluation; \<open>h.get\<close> raises when \<open>h\<close> is not a dictionary.\<close>

definition fallback_evaluation_entry :: "pyval \<Rightarrow> error + pyval" where
  "fallback_evaluation_entry h =
     (case py_get h ''id'' (PStr ''h_unknown'') of
        Inl e \<Rightarrow> Inl e
      | Inr hid \<Rightarrow>
     (case py_get h ''title'' (PStr ''Unknown'') of
        Inl e \<Rightarrow> Inl e
      | Inr title \<Rightarrow>
     (case py_get h ''confidence'' (PFloat (Finite (7/10))) of
        Inl e \<Rightarrow> Inl e
      | Inr confidence \<Rightarrow>
          Inr (PDict
            [(''hypothesis_id'', hid),
             (''hypothesis_title'', title),
             (''validation_approach'', PStr ''Comparative segment analysis''),
             (''data_evidence'', PDict
                [(''primary_metric'', PDict
                    [(''baseline'', PFloat (Finite (15/1000))),
                     (''observed'', PFloat (Finite (12/1000))),
                     (''change_percent'', PFloat (Finite (-20))),
                     (''statistical_note'', PStr ''Meaningful decline (>5% threshold)'')])]),
             (''supporting_metrics'', PList
                [PStr ''Metric1: 25% decrease aligns with hypothesis'',
                 PStr ''Metric2: Pattern consistent across segments'']),
             (''contradicting_metrics'', PList [PStr ''Some segments show stable performance'']),
             (''confidence_score'', confidence),
             (''confidence_reasoning'', PStr ''Evidence supports hypothesis with some caveats; alternative explanations possible''),
             (''validation_status'', PStr ''PARTIALLY_CONFIRMED''),
             (''actionability'', PStr ''Sufficient confidence to recommend testing remediation tactics'')]))))"

text \<open>A loop that builds a list and stops at the first exception.\<close>

fun map_result :: "('a \<Rightarrow> error + 'b) \<Rightarrow> 'a list \<Rightarrow> error + 'b list" where
  "map_result f [] = Inr []"
| "map_result f (x # xs) =
     (case f x of
        Inl e \<Rightarrow> Inl e
      | Inr y \<Rightarrow> (case map_result f xs of Inl e \<Rightarrow> Inl e | Inr ys \<Rightarrow> Inr (y # ys)))"

definition create_fallback_evaluation :: "pyval \<Rightarrow> error + pyval" where
  "create_fallback_evaluation hypotheses =
     (case py_slice 3 hypotheses of
        Inl e \<Rightarrow> Inl e
      | Inr first3 \<Rightarrow>
     (case py_iter first3 of
        Inl e \<Rightarrow> Inl e
      | Inr hs \<Rightarrow>
     (case map_result fallback_evaluation_entry hs of
        Inl e \<Rightarrow> Inl e
      | Inr evaluations \<Rightarrow>
          Inr (PDict
            [(''evaluation_summary'', PStr ''Multiple hypotheses partially confirmed; recommend prioritized testing''),
             (''hypothesis_evaluations'', PList evaluations),
             (''top_validated_insights'', PList
                [PDict
                   [(''insight'', PStr ''Audience fatigue appears to be primary driver of ROAS decline''),
                    (''confidence'', PFloat (Finite (72/100))),
                    (''impact'', PStr ''Recommend creative refresh and audience expansion strategy'')]]),
             (''recommended_actions'', PList
                [PStr ''Action 1: Increase creative variation frequency to combat audience fatigue'',
                 PStr ''Action 2: Expand lookalike audience size and refresh weekly'',
                 PStr ''Action 3: Test new creative messaging angles in control groups'']),
             (''evaluation_methodology'', PStr ''Segment comparison with trend analysis; >5% delta threshold applied'')]))))"

text \<open>
  The assembly of the validation prompt: the hypotheses, the summary and the analysis
  are serialised, in this order, outside the \<open>try\<close> statement.
\<close>

definition evaluator_prompt :: "env \<Rightarrow> pyval \<Rightarrow> pyval \<Rightarrow> pyval \<Rightarrow> error + unit" where
  "evaluator_prompt E hypotheses data_summary analysis_data =
     (case dumps E hypotheses of
        Inl e \<Rightarrow> Inl e
      | Inr _ \<Rightarrow>
     (case dumps E data_summary of
        Inl e \<Rightarrow> Inl e
      | Inr _ \<Rightarrow>
     (case dumps E analysis_data of
        Inl e \<Rightarrow> Inl e
      | Inr _ \<Rightarrow> Inr ())))"

definition evaluator_execute :: "env \<Rightarrow> pyval \<Rightarrow> string \<Rightarrow> pydict \<Rightarrow> world \<Rightarrow> (error + pydict) \<times> world" where
  "evaluator_execute E cfg task context w =
     (case read_prompt E ''prompts/evaluator.md'' of
        Inl e \<Rightarrow> (Inl e, w)
      | Inr system_prompt \<Rightarrow>
     (case py_get (dget context ''hypotheses'' (PDict [])) ''hypotheses'' (PList []) of
        Inl e \<Rightarrow> (Inl e, w)
      | Inr hypotheses \<Rightarrow>
     (case evaluator_prompt E hypotheses (dget context ''data_summary'' (PDict []))
             (dget context ''analysis'' (PDict [])) of
        Inl e \<Rightarrow> (Inl e, w)
      | Inr _ \<Rightarrow>
          (case think_json E cfg (PFloat (Finite (2/10))) w of
             (Inr evaluation_response, w') \<Rightarrow>
               (Inr [(''status'', PStr ''success''),
                     (''evaluation'', evaluation_response),
                     (''task'', PStr task)], w')
           | (Inl e, w') \<Rightarrow>
               (case create_fallback_evaluation hypotheses of
                  Inl e' \<Rightarrow> (Inl e', w')
                | Inr fallback \<Rightarrow>
                    (Inr [(''status'', PStr ''partial''),
                          (''evaluation'', fallback),
                          (''error'', PStr (str_of_error e))], w'))))))"

section \<open>The creative generator (agents/creative_generator.py)\<close>

definition creative_recommendation ::
  "string \<Rightarrow> string \<Rightarrow> string \<Rightarrow> string \<Rightarrow> string \<Rightarrow> string \<Rightarrow> string \<Rightarrow> pyval" where
  "creative_recommendation rid headline angle value_prop cta why lift = PDict
     [(''id'', PStr rid),
      (''headline'', PStr headline),
      (''creative_angle'', PStr angle),
      (''value_prop'', PStr value_prop),
      (''cta'', PStr cta),
      (''why_this_works'', PStr why),
      (''predicted_lift'', PStr lift)]"

text \<open>
  The fallback recommendations of one campaign. Two headlines hold a dash and an arrow
  outside the 8-bit characters; they are written \<open>--\<close> and \<open>->\<close> here.
\<close>

definition create_fallback_creative :: "pyval \<Rightarrow> error + pyval" where
  "create_fallback_creative campaign =
     (case py_get campaign ''campaign_name'' (PStr ''Unknown'') of
        Inl e \<Rightarrow> Inl e
      | Inr name \<Rightarrow>
     (case py_get campaign ''ctr'' (PFloat (Finite (1/100))) of
        Inl e \<Rightarrow> Inl e
      | Inr current_ctr \<Rightarrow>
     (case py_get campaign ''creative_message'' (PStr ''Unknown'') of
        Inl e \<Rightarrow> Inl e
      | Inr message \<Rightarrow>
          Inr (PDict
            [(''low_performer_analysis'', PDict
                [(''campaign_name'', name),
                 (''current_ctr'', current_ctr),
                 (''current_messaging'', message),
                 (''performance_gap'', PStr ''Below average CTR'')]),
             (''creative_recommendations'', PList
                [creative_recommendation ''rec_1''
                   ''Breathable comfort for your active lifestyle -- Shop now ->''
                   ''Lifestyle positioning with lifestyle benefit''
                   ''Comfort and activity compatibility''
                   ''Shop now''
                   ''Combines specific benefit (breathable) with use case (active) and clear CTA''
                   ''15-25%'',
                 creative_recommendation ''rec_2''
                   ''Limited stock: Best-selling comfort briefs back in store''
                   ''Urgency + social proof''
                   ''Scarcity and bestseller status''
                   ''Get yours today''
                   ''Combines urgency (limited stock), social proof (bestselling), and clear CTA''
                   ''10-20%'',
                 creative_recommendation ''rec_3''
                   ''No ride-up guarantee or your money back -- Premium comfort inside''
                   ''Problem-solution with guarantee''
                   ''Specific pain point solved + risk reversal''
                   ''Try risk-free''
                   ''Addresses specific pain point (ride-up), adds guarantee for confidence''
                   ''20-30%'']),
             (''implementation_priority'', PList
                [PDict [(''recommendation_id'', PStr ''rec_3''), (''priority'', PStr ''HIGH'')],
                 PDict [(''recommendation_id'', PStr ''rec_1''), (''priority'', PStr ''MEDIUM'')],
                 PDict [(''recommendation_id'', PStr ''rec_2''), (''priority'', PStr ''MEDIUM'')]])]))))"

text \<open>
  The assembly of the prompt of one campaign, outside the \<open>try\<close> statement: the name
  and the message of the campaign are looked up and interpolated, the
  click-through-rate is looked up and formatted with \<open>:.4f\<close>, and the creative
  performance and the summary are serialised.
\<close>

definition creative_prompt :: "env \<Rightarrow> pyval \<Rightarrow> pyval \<Rightarrow> pyval \<Rightarrow> error + unit" where
  "creative_prompt E campaign creative_performance data_summary =
     (case py_get campaign ''campaign_name'' (PStr ''Unknown'') of
        Inl e \<Rightarrow> Inl e
      | Inr name \<Rightarrow>
     (case py_str E name of
        Inl e \<Rightarrow> Inl e
      | Inr _ \<Rightarrow>
     (case py_get campaign ''creative_message'' (PStr ''Unknown'') of
        Inl e \<Rightarrow> Inl e
      | Inr message \<Rightarrow>
     (case py_str E message of
        Inl e \<Rightarrow> Inl e
      | Inr _ \<Rightarrow>
     (case py_get campaign ''ctr'' (PFloat (Finite (1/100))) of
        Inl e \<Rightarrow> Inl e
      | Inr current_ctr \<Rightarrow>
     (case py_format_number current_ctr of
        Inl e \<Rightarrow> Inl e
      | Inr _ \<Rightarrow>
     (case dumps E creative_performance of
        Inl e \<Rightarrow> Inl e
      | Inr _ \<Rightarrow>
     (case dumps E data_summary of
        Inl e \<Rightarrow> Inl e
      | Inr _ \<Rightarrow> Inr ()))))))))"

text \<open>The loop over the campaigns; \<open>recommendations\<close> is the list built so far.\<close>

fun creative_loop ::
  "env \<Rightarrow> pyval \<Rightarrow> pyval \<Rightarrow> pyval \<Rightarrow> pyval list \<Rightarrow> pyval list \<Rightarrow> world \<Rightarrow> (error + pyval list) \<times> world" where
  "creative_loop E cfg perf summary [] recommendations w = (Inr recommendations, w)"
| "creative_loop E cfg perf summary (campaign # rest) recommendations w =
     (case creative_prompt E campaign perf summary of
        Inl e \<Rightarrow> (Inl e, w)
      | Inr _ \<Rightarrow>
          (case think_json E cfg (PFloat (Finite (8/10))) w of
             (Inr campaign_recommendations, w') \<Rightarrow>
               creative_loop E cfg perf summary rest (recommendations @ [campaign_recommendations]) w'
           | (Inl e, w') \<Rightarrow>
               (case create_fallback_creative campaign of
                  Inl e' \<Rightarrow> (Inl e', w')
                | Inr fallback \<Rightarrow>
                    creative_loop E cfg perf summary rest (recommendations @ [fallback]) w')))"

definition creative_execute :: "env \<Rightarrow> pyval \<Rightarrow> string \<Rightarrow> pydict \<Rightarrow> world \<Rightarrow> (error + pydict) \<times> world" where
  "creative_execute E cfg task context w =
     (case read_prompt E ''prompts/creative_generator.md'' of
        Inl e \<Rightarrow> (Inl e, w)
      | Inr system_prompt \<Rightarrow>
     (case py_get (dget context ''analysis'' (PDict [])) ''low_ctr_campaigns'' (PList []) of
        Inl e \<Rightarrow> (Inl e, w)
      | Inr low_ctr_campaigns \<Rightarrow>
     (case py_get (dget context ''analysis'' (PDict [])) ''creative_performance'' (PDict []) of
        Inl e \<Rightarrow> (Inl e, w)
      | Inr creative_performance \<Rightarrow>
          if \<not> truthy low_ctr_campaigns then
            (Inr [(''status'', PStr ''info''),
                  (''message'', PStr ''No low-CTR campaigns found for optimization''),
                  (''recommendations'', PList [])], w)
          else
            (case py_slice 3 low_ctr_campaigns of
               Inl e \<Rightarrow> (Inl e, w)
             | Inr first3 \<Rightarrow>
            (case py_iter first3 of
               Inl e \<Rightarrow> (Inl e, w)
             | Inr campaigns \<Rightarrow>
            (case creative_loop E cfg creative_performance
                    (dget context ''data_summary'' (PDict [])) campaigns [] w of
               (Inl e, w') \<Rightarrow> (Inl e, w')
             | (Inr recommendations, w') \<Rightarrow>
                 (Inr [(''status'', PStr ''success''),
                       (''recommendations'', PList recommendations),
                       (''count'', PInt (int (length recommendations)))], w')))))))"

section \<open>The data agent (agents/data_agent.py)\<close>

text \<open>
  The context the orchestrator hands to the data agent; a key that is absent takes the
  default of \<open>context.get\<close>.
\<close>

record data_context =
  ctx_dataset_path :: "string option"
  ctx_sample_mode :: "bool option"
  ctx_sample_size :: "int option"
  ctx_analysis_requirements :: "string list option"

definition campaign_stats :: "row list \<Rightarrow> string \<Rightarrow> string \<times> pyval" where
  "campaign_stats df campaign =
     (let campaign_data = filter (\<lambda>r. campaign_name r = campaign) df
      in (campaign, PDict
           [(''avg_roas'', PFloat (mean (map roas campaign_data))),
            (''avg_ctr'', PFloat (mean (map ctr campaign_data))),
            (''total_spend'', PFloat (Finite (sum_list (map spend campaign_data)))),
            (''record_count'', PInt (int (length campaign_data)))]))"

definition analyze_campaign_performance :: "world \<Rightarrow> pyval" where
  "analyze_campaign_performance w =
     (case agent_df w of
        None \<Rightarrow> PDict []
      | Some df \<Rightarrow> PDict (map (campaign_stats df) (unique (map campaign_name df))))"

text \<open>
  \<open>low_ctr[[...]].drop_duplicates().to_dict('records')\<close>: the four columns of each row,
  the first of equal lines kept.
\<close>

definition low_ctr_record :: "string \<times> string \<times> rat \<times> string \<Rightarrow> pyval" where
  "low_ctr_record t =
     (case t of (campaign, adset, c, message) \<Rightarrow> PDict
        [(''campaign_name'', PStr campaign),
         (''adset_name'', PStr adset),
         (''ctr'', PFloat (Finite c)),
         (''creative_message'', PStr message)])"

definition low_ctr_records :: "row list \<Rightarrow> pyval list" where
  "low_ctr_records low_ctr =
     map low_ctr_record
       (unique (map (\<lambda>r. (campaign_name r, adset_name r, ctr r, creative_message r)) low_ctr))"

definition wanted :: "string \<Rightarrow> string list \<Rightarrow> bool" where
  "wanted name requirements = (name \<in> set requirements \<or> requirements = [])"

text \<open>A query of \<open>self.data_loader\<close>, which is \<open>None\<close> until \<open>execute\<close> has set it.\<close>

definition with_loader ::
  "(DataLoader \<Rightarrow> (error + 'a) \<times> DataLoader) \<Rightarrow> world \<Rightarrow> (error + 'a) \<times> world" where
  "with_loader query w =
     (case data_loader w of
        None \<Rightarrow> (Inl (AttributeError ''NoneType object has no attribute''), w)
      | Some dl \<Rightarrow> (case query dl of (r, dl') \<Rightarrow> (r, w\<lparr>data_loader := Some dl'\<rparr>)))"

text \<open>The four analyses of \<open>_perform_analysis\<close>, each adding its keys to \<open>analysis\<close>.\<close>

definition add_campaign_performance :: "string list \<Rightarrow> pydict \<Rightarrow> world \<Rightarrow> (error + pydict) \<times> world" where
  "add_campaign_performance requirements analysis w =
     (if wanted ''campaign_performance'' requirements
      then (Inr (dict_set ''campaign_performance'' (analyze_campaign_performance w) analysis), w)
      else (Inr analysis, w))"

definition add_creative_performance :: "env \<Rightarrow> string list \<Rightarrow> pydict \<Rightarrow> world \<Rightarrow> (error + pydict) \<times> world" where
  "add_creative_performance E requirements analysis w =
     (if wanted ''creative_performance'' requirements
      then (case with_loader (get_creative_performance (datasets E)) w of
              (Inl e, w') \<Rightarrow> (Inl e, w')
            | (Inr perf, w') \<Rightarrow> (Inr (dict_set ''creative_performance'' perf analysis), w'))
      else (Inr analysis, w))"

definition add_roas_timeline :: "env \<Rightarrow> string list \<Rightarrow> pydict \<Rightarrow> world \<Rightarrow> (error + pydict) \<times> world" where
  "add_roas_timeline E requirements analysis w =
     (if wanted ''roas_timeline'' requirements
      then (case with_loader (get_roas_timeline (datasets E)) w of
              (Inl e, w') \<Rightarrow> (Inl e, w')
            | (Inr timeline, w') \<Rightarrow>
                (Inr (dict_set ''roas_timeline'' (PList (take 10 (map timeline_record timeline))) analysis), w'))
      else (Inr analysis, w))"

definition add_low_ctr :: "env \<Rightarrow> string list \<Rightarrow> pydict \<Rightarrow> world \<Rightarrow> (error + pydict) \<times> world" where
  "add_low_ctr E requirements analysis w =
     (if wanted ''low_ctr_campaigns'' requirements
      then (case with_loader (\<lambda>dl. filter_low_ctr (datasets E) dl (12/1000)) w of
              (Inl e, w') \<Rightarrow> (Inl e, w')
            | (Inr low_ctr, w') \<Rightarrow>
                (Inr (dict_set ''low_ctr_campaigns'' (PList (take 5 (low_ctr_records low_ctr)))
                       (dict_set ''low_ctr_count'' (PInt (int (length low_ctr))) analysis)), w'))
      else (Inr analysis, w))"

text \<open>
  \<open>_perform_analysis\<close>. The guard reads \<open>if not self.df is None: return {}\<close>, that is,
  it returns the empty dictionary when the dataframe is there.
\<close>

definition perform_analysis :: "env \<Rightarrow> string list \<Rightarrow> world \<Rightarrow> (error + pydict) \<times> world" where
  "perform_analysis E requirements w =
     (if agent_df w \<noteq> None then (Inr [], w)
      else
        (case add_campaign_performance requirements [] w of
           (Inl e, w1) \<Rightarrow> (Inl e, w1)
         | (Inr a1, w1) \<Rightarrow>
        (case add_creative_performance E requirements a1 w1 of
           (Inl e, w2) \<Rightarrow> (Inl e, w2)
         | (Inr a2, w2) \<Rightarrow>
        (case add_roas_timeline E requirements a2 w2 of
           (Inl e, w3) \<Rightarrow> (Inl e, w3)
         | (Inr a3, w3) \<Rightarrow> add_low_ctr E requirements a3 w3))))"

definition structure_findings :: "env \<Rightarrow> pyval \<Rightarrow> pyval \<Rightarrow> pydict \<Rightarrow> world \<Rightarrow> (error + pyval) \<times> world" where
  "structure_findings E cfg summary analysis w =
     (case read_prompt E ''prompts/data_agent.md'' of
        Inl e \<Rightarrow> (Inl e, w)
      | Inr system_prompt \<Rightarrow>
     (case dumps E summary of
        Inl e \<Rightarrow> (Inl e, w)
      | Inr _ \<Rightarrow>
     (case dumps E (PDict analysis) of
        Inl e \<Rightarrow> (Inl e, w)
      | Inr _ \<Rightarrow>
          (case think_json E cfg (PFloat (Finite (2/10))) w of
             (Inr structured, w') \<Rightarrow> (Inr structured, w')
           | (Inl e, w') \<Rightarrow>
               (Inr (PDict
                  [(''summary'', summary),
                   (''key_segments'', PDict analysis),
                   (''trend_observations'', PList [PStr ''Data loaded successfully'']),
                   (''reasoning'', PStr ''Basic data analysis completed'')]), w')))))"

text \<open>The body of the \<open>try\<close> statement of \<open>DataAgent.execute\<close>.\<close>

definition data_execute_try ::
  "env \<Rightarrow> pyval \<Rightarrow> string \<Rightarrow> bool \<Rightarrow> int \<Rightarrow> string list \<Rightarrow> world \<Rightarrow> (error + pydict) \<times> world" where
  "data_execute_try E cfg path mode size' requirements w =
     (let w0 = w\<lparr>data_loader := Some (DataLoader_init path mode size')\<rparr>
      in case with_loader (load (datasets E)) w0 of
           (Inl e, w1) \<Rightarrow> (Inl e, w1)
         | (Inr df, w1) \<Rightarrow>
             (let w2 = w1\<lparr>agent_df := Some df\<rparr>
              in case with_loader (get_summary (datasets E)) w2 of
                   (Inl e, w3) \<Rightarrow> (Inl e, w3)
                 | (Inr summary_dict, w3) \<Rightarrow>
                     (case perform_analysis E requirements w3 of
                        (Inl e, w4) \<Rightarrow> (Inl e, w4)
                      | (Inr analysis_results, w4) \<Rightarrow>
                          (case structure_findings E cfg summary_dict analysis_results w4 of
                             (Inl e, w5) \<Rightarrow> (Inl e, w5)
                           | (Inr structured_findings, w5) \<Rightarrow>
                               (Inr [(''status'', PStr ''success''),
                                     (''data_summary'', summary_dict),
                                     (''analysis'', PDict analysis_results),
                                     (''structured_findings'', structured_findings),
                                     (''record_count'', PInt (int (length df)))], w5)))))"

text \<open>\<open>DataAgent.execute\<close>: every exception of the body becomes a result with status \<open>error\<close>.\<close>

definition data_execute :: "env \<Rightarrow> pyval \<Rightarrow> string \<Rightarrow> data_context \<Rightarrow> world \<Rightarrow> (error + pydict) \<times> world" where
  "data_execute E cfg task context w =
     (let path = (case ctx_dataset_path context of
                    Some p \<Rightarrow> p | None \<Rightarrow> ''data/synthetic_fb_ads_undergarments.csv'');
          mode = (case ctx_sample_mode context of Some m \<Rightarrow> m | None \<Rightarrow> False);
          size' = (case ctx_sample_size context of Some n \<Rightarrow> n | None \<Rightarrow> 100);
          requirements = (case ctx_analysis_requirements context of Some rs \<Rightarrow> rs | None \<Rightarrow> [])
      in case data_execute_try E cfg path mode size' requirements w of
           (Inr result, w') \<Rightarrow> (Inr result, w')
         | (Inl e, w') \<Rightarrow>
             (Inr [(''status'', PStr ''error''),
                   (''error'', PStr (str_of_error e))], w'))"

section \<open>The orchestrator (orchestrator/runner.py)\<close>




definition prepare_insight_context :: "pydict \<Rightarrow> pydict \<Rightarrow> pydict" where
  "prepare_insight_context plan_result data_result =
     [(''plan'', dget plan_result ''plan'' (PDict [])),
      (''data_summary'', dget data_result ''data_summary'' (PDict [])),
      (''analysis'', dget data_result ''analysis'' (PDict []))]"

definition prepare_eval_context :: "pydict \<Rightarrow> pydict \<Rightarrow> pydict" where
  "prepare_eval_context insight_result data_result =
     [(''hypotheses'', dget insight_result ''hypotheses'' (PDict [])),
      (''data_summary'', dget data_result ''data_summary'' (PDict [])),
      (''analysis'', dget data_result ''analysis'' (PDict []))]"

definition prepare_creative_context :: "pydict \<Rightarrow> pydict" where
  "prepare_creative_context data_result =
     [(''analysis'', dget data_result ''analysis'' (PDict [])),
      (''data_summary'', dget data_result ''data_summary'' (PDict []))]"























text \<open>The state of a freshly built orchestrator.\<close>

definition initial_world :: world where
  "initial_world =
     \<lparr>calls = 0, data_loader = None, agent_df = None,
      execution_trace = [], results = [], written = []\<rparr>"

section \<open>Worlds and inputs for the examples\<close>

text \<open>
  A world in which every call of the generation service raises, every instruction
  template can be read, no dataset file exists, and the two functions that turn a value
  into text never raise (their text is not looked at).
\<close>

definition failing_env :: env where
  "failing_env =
     \<lparr>llm = (\<lambda>n. Inl ''service unavailable''),
      loads = json_loads,
      dumps = (\<lambda>v. Inr ''text''),
      py_str = (\<lambda>v. Inr ''text''),
      prompts = (\<lambda>path. Some ''template''),
      datasets = (\<lambda>path. None),
      now_id = ''20250101_000000'',
      now_iso = ''2025-01-01T00:00:00''\<rparr>"


definition example_campaign :: "string \<Rightarrow> pyval" where
  "example_campaign name = PDict
     [(''campaign_name'', PStr name),
      (''adset_name'', PStr ''adset''),
      (''ctr'', PFloat (Finite (1/100))),
      (''creative_message'', PStr ''message'')]"

definition campaigns_context :: "pyval list \<Rightarrow> pydict" where
  "campaigns_context cs =
     [(''analysis'', PDict [(''low_ctr_campaigns'', PList cs)]),
      (''data_summary'', PDict [])]"

text \<open>A value that is a dictionary, as every \<open>.get\<close> of the stages needs its receiver to be.\<close>

fun is_dict :: "pyval \<Rightarrow> bool" where
  "is_dict (PDict _) = True"
| "is_dict _ = False"

text \<open>The failing world with a dataset file of three rows, and the context that names it.\<close>

definition loaded_env :: env where
  "loaded_env = failing_env\<lparr>datasets := example_files ctr_rows\<rparr>"

text \<open>The same world without the template file of the creative stage.\<close>

definition no_creative_template_env :: env where
  "no_creative_template_env =
     loaded_env\<lparr>prompts := (\<lambda>path. if path = ''prompts/creative_generator.md'' then None
                                    else Some ''template'')\<rparr>"

definition example_data_context :: data_context where
  "example_data_context =
     \<lparr>ctx_dataset_path = Some ''ads.csv'', ctx_sample_mode = Some False,
      ctx_sample_size = Some 100,
      ctx_analysis_requirements = Some
        [''campaign_performance'', ''creative_performance'', ''roas_timeline'', ''low_ctr_campaigns'']\<rparr>"

text \<open>A context with one hypothesis and one low-CTR campaign.\<close>

definition example_stage_context :: pydict where
  "example_stage_context =
     [(''hypotheses'', PDict [(''hypotheses'', PList [PDict [(''id'', PStr ''h1'')]])]),
      (''analysis'', PDict [(''low_ctr_campaigns'', PList [example_campaign ''A''])]),
      (''data_summary'', PDict [])]"

section \<open>What a recorded stage result carries\<close>









section \<open>The extractor: splitting at fences\<close>

lemma split_acc_Nil: "split_acc sep acc [] = [rev acc]"
  by (simp add: split_acc.simps)

lemma split_acc_hit:
  "sep \<noteq> [] \<Longrightarrow> prefix sep (c # cs) \<Longrightarrow>
   split_acc sep acc (c # cs) = rev acc # split_acc sep [] (drop (length sep) (c # cs))"
  by (subst split_acc.simps) simp

lemma split_acc_miss:
  "\<not> prefix sep (c # cs) \<Longrightarrow> split_acc sep acc (c # cs) = split_acc sep (c # acc) cs"
  by (subst split_acc.simps) simp

lemma split_acc_absent:
  "\<not> contains sep s \<Longrightarrow> split_acc sep acc s = [rev acc @ s]"
proof (induction s arbitrary: acc)
  case Nil
  then show ?case by (simp add: split_acc_Nil)
next
  case (Cons c cs)
  then show ?case by (simp add: split_acc_miss)
qed

lemma contains_weaken: "contains (a @ b) s \<Longrightarrow> contains a s"
  by (induction s) (auto simp: prefix_def)

lemma label_has_fence: \<open>contains ''```json'' s \<Longrightarrow> contains ''```'' s\<close>
  by (induction s) (auto simp: prefix_def)

lemma fence_not_prefix:
  \<open>\<not> contains ''```'' (c # cs) \<Longrightarrow> \<not> prefix ''```'' (c # cs @ CHR 0x0A # t)\<close>
  by (cases cs; cases "tl cs") auto

lemma split_fence_close:
  \<open>\<not> contains ''```'' s \<Longrightarrow>
   split_acc ''```'' acc (s @ CHR 0x0A # ''```'' @ b) = (rev acc @ s @ [CHR 0x0A]) # split_acc ''```'' [] b\<close>
proof (induction s arbitrary: acc)
  case Nil
  show ?case by (simp add: split_acc_miss split_acc_hit)
next
  case (Cons c cs)
  have "\<not> prefix ''```'' (c # cs @ CHR 0x0A # ''```'' @ b)"
    using Cons.prems by (rule fence_not_prefix)
  moreover have \<open>\<not> contains ''```'' cs\<close> using Cons.prems by simp
  ultimately show ?case using Cons.IH by (simp add: split_acc_miss)
qed

lemma label_absent:
  \<open>\<not> contains ''```'' s \<Longrightarrow> \<not> contains ''```json'' (s @ CHR 0x0A # ''```'')\<close>
proof (induction s)
  case Nil
  show ?case by simp
next
  case (Cons c cs)
  have "\<not> prefix ''```'' (c # cs @ CHR 0x0A # ''```'')"
    using Cons.prems by (rule fence_not_prefix)
  then have "\<not> prefix ''```json'' (c # cs @ CHR 0x0A # ''```'')"
    by (auto simp: prefix_def)
  then show ?case using Cons by simp
qed

lemma fence_absent_nl:
  \<open>\<not> contains ''```'' s \<Longrightarrow> \<not> contains ''```'' (s @ [CHR 0x0A])\<close>
proof (induction s)
  case Nil
  show ?case by simp
next
  case (Cons c cs)
  have "\<not> prefix ''```'' (c # cs @ CHR 0x0A # [])"
    using Cons.prems by (rule fence_not_prefix)
  then show ?case using Cons by simp
qed

lemma isspace_newline: "isspace (CHR 0x0A)"
  by (simp add: isspace_def)

lemma strip_newlines: "strip (CHR 0x0A # s @ [CHR 0x0A]) = strip s"
proof (cases "\<forall>x\<in>set s. isspace x")
  case True
  then have a: "dropWhile isspace (s @ [CHR 0x0A]) = []" and b: "dropWhile isspace s = []"
    by (simp_all add: dropWhile_eq_Nil_conv isspace_newline)
  have "strip (CHR 0x0A # s @ [CHR 0x0A]) = rev (dropWhile isspace (rev (dropWhile isspace (s @ [CHR 0x0A]))))"
    by (simp add: strip_def isspace_newline del: dropWhile_append)
  also have "\<dots> = []" by (subst a) simp
  also have "[] = strip s" unfolding strip_def by (subst b) simp
  finally show ?thesis .
next
  case False
  then have "dropWhile isspace (s @ [CHR 0x0A]) = dropWhile isspace s @ [CHR 0x0A]"
    by (auto simp: dropWhile_append1)
  then show ?thesis by (simp add: strip_def isspace_newline)
qed

lemma interior_labeled:
  assumes \<open>\<not> contains ''```'' s\<close>
  shows \<open>fenced_interior ''```json'' (fence_labeled s) = Inr (strip s)\<close>
proof -
  have a: \<open>py_split ''```json'' (fence_labeled s) = [[], CHR 0x0A # s @ CHR 0x0A # ''```'']\<close>
    using label_absent [OF assms]
    by (simp add: py_split_def fence_labeled_def split_acc_hit split_acc_absent)
  have b: \<open>py_split ''```'' (CHR 0x0A # s @ CHR 0x0A # ''```'') = [CHR 0x0A # s @ [CHR 0x0A], []]\<close>
    using split_fence_close [OF assms, of "[CHR 0x0A]" "[]"]
    by (simp add: py_split_def split_acc_miss split_acc_Nil)
  show ?thesis by (simp add: fenced_interior_def a b py_index_def strip_newlines)
qed

lemma interior_unlabeled:
  assumes \<open>\<not> contains ''```'' s\<close>
  shows \<open>fenced_interior ''```'' (fence_unlabeled s) = Inr (strip s)\<close>
proof -
  have a: \<open>py_split ''```'' (fence_unlabeled s) = [[], CHR 0x0A # s @ [CHR 0x0A], []]\<close>
    using split_fence_close [OF assms, of "[CHR 0x0A]" "[]"]
    by (simp add: py_split_def fence_unlabeled_def split_acc_hit split_acc_miss split_acc_Nil)
  have \<open>\<not> contains ''```'' (CHR 0x0A # s @ [CHR 0x0A])\<close>
    using fence_absent_nl [OF assms] by simp
  then have b: \<open>py_split ''```'' (CHR 0x0A # s @ [CHR 0x0A]) = [CHR 0x0A # s @ [CHR 0x0A]]\<close>
    by (simp add: py_split_def split_acc_absent)
  show ?thesis by (simp add: fenced_interior_def a b py_index_def strip_newlines)
qed

lemma labeled_has_label: \<open>contains ''```json'' (fence_labeled s)\<close>
  by (simp add: fence_labeled_def)

lemma unlabeled_has_fence: \<open>contains ''```'' (fence_unlabeled s)\<close>
  by (simp add: fence_unlabeled_def)

lemma unlabeled_no_label:
  \<open>\<not> contains ''```'' s \<Longrightarrow> \<not> contains ''```json'' (fence_unlabeled s)\<close>
  using label_absent [of s] by (simp add: fence_unlabeled_def)

lemma fenced_interior_error:
  "fenced_interior fence text = Inl e \<Longrightarrow> e = IndexError ''list index out of range''"
  by (auto simp: fenced_interior_def py_index_def split: sum.splits if_splits)

lemmas json_eval = json_loads_def skip_ws_def json_ws_def expect_def scan_number_def is_digit_def

lemmas extract_eval =
  generate_json_extract_def fenced_interior_def py_index_def py_split_def split_acc.simps
  strip_def isspace_def fence_labeled_def fence_unlabeled_def

lemma json_loads_decode_error: "json_loads s = Inl e \<Longrightarrow> is_decode_error e"
  by (auto simp: json_loads_def split: option.splits prod.splits if_splits)

lemma extract_direct: "lds t = Inr v \<Longrightarrow> generate_json_extract lds t = Inr v"
  by (simp add: generate_json_extract_def)

lemma extract_labeled:
  \<open>lds t = Inl (JSONDecodeError m) \<Longrightarrow> contains ''```json'' t \<Longrightarrow>
   generate_json_extract lds t =
     (case fenced_interior ''```json'' t of Inl e \<Rightarrow> Inl e | Inr i \<Rightarrow> lds i)\<close>
  by (simp add: generate_json_extract_def)

lemma extract_unlabeled:
  \<open>lds t = Inl (JSONDecodeError m) \<Longrightarrow> \<not> contains ''```json'' t \<Longrightarrow> contains ''```'' t \<Longrightarrow>
   generate_json_extract lds t =
     (case fenced_interior ''```'' t of Inl e \<Rightarrow> Inl e | Inr i \<Rightarrow> lds i)\<close>
  by (simp add: generate_json_extract_def)

subsection \<open>The three wrappings\<close>

text \<open>
  C5 (amended). The extractor tries the forms in a fixed order and the first that
  applies decides: a text that parses directly gives its parse, whatever fences it
  holds; otherwise a text with a fence labelled \<open>json\<close> gives the parse of the interior
  of that fence, and only a text without a labelled fence gives the parse of the
  interior of its first fence. So for a text \<open>s\<close> that parses to the record \<open>r\<close>, with
  or without surrounding white space, and that contains no run of three backticks, the
  extractor returns \<open>r\<close> for the bare text, for the block labelled \<open>json\<close> and for the
  unlabelled block (the two blocks themselves not being JSON texts).
\<close>

theorem extract_three_forms:
  assumes \<open>lds s = Inr r\<close>
    and \<open>lds (strip s) = Inr r\<close>
    and \<open>\<not> contains ''```'' s\<close>
    and \<open>lds (fence_labeled s) = Inl (JSONDecodeError m1)\<close>
    and \<open>lds (fence_unlabeled s) = Inl (JSONDecodeError m2)\<close>
  shows \<open>generate_json_extract lds s = Inr r
       \<and> generate_json_extract lds (fence_labeled s) = Inr r
       \<and> generate_json_extract lds (fence_unlabeled s) = Inr r
       \<and> (\<forall>t v. lds t = Inr v \<longrightarrow> generate_json_extract lds t = Inr v)
       \<and> (\<forall>t m. lds t = Inl (JSONDecodeError m) \<and> contains ''```json'' t \<longrightarrow>
             generate_json_extract lds t =
               (case fenced_interior ''```json'' t of Inl e \<Rightarrow> Inl e | Inr i \<Rightarrow> lds i))
       \<and> (\<forall>t m. lds t = Inl (JSONDecodeError m) \<and> \<not> contains ''```json'' t \<and> contains ''```'' t \<longrightarrow>
             generate_json_extract lds t =
               (case fenced_interior ''```'' t of Inl e \<Rightarrow> Inl e | Inr i \<Rightarrow> lds i))\<close>
proof -
  have a: \<open>generate_json_extract lds s = Inr r\<close>
    using assms(1) by (rule extract_direct)
  have b: \<open>generate_json_extract lds (fence_labeled s) = Inr r\<close>
    using assms(2,3,4) by (simp add: extract_labeled labeled_has_label interior_labeled)
  have c: \<open>generate_json_extract lds (fence_unlabeled s) = Inr r\<close>
    using assms(2,3,5)
    by (simp add: extract_unlabeled unlabeled_no_label unlabeled_has_fence interior_unlabeled)
  show ?thesis
    using a b c by (simp add: extract_direct extract_labeled extract_unlabeled)
qed

text \<open>
  The witness is a record with a blank on either side; its second part is a text that
  parses directly although it holds a labelled fence around another value.
\<close>

theorem extract_three_forms_witness:
  \<open>json_loads '' {"a": "b"} '' = Inr (PDict [(''a'', PStr ''b'')])
   \<and> json_loads (strip '' {"a": "b"} '') = Inr (PDict [(''a'', PStr ''b'')])
   \<and> \<not> contains ''```'' '' {"a": "b"} ''
   \<and> json_loads (fence_labeled '' {"a": "b"} '') = Inl (JSONDecodeError ''Expecting value'')
   \<and> json_loads (fence_unlabeled '' {"a": "b"} '') = Inl (JSONDecodeError ''Expecting value'')
   \<and> generate_json_extract json_loads '' {"a": "b"} '' = Inr (PDict [(''a'', PStr ''b'')])
   \<and> generate_json_extract json_loads (fence_labeled '' {"a": "b"} '') = Inr (PDict [(''a'', PStr ''b'')])
   \<and> generate_json_extract json_loads (fence_unlabeled '' {"a": "b"} '') = Inr (PDict [(''a'', PStr ''b'')])
   \<and> json_loads ''{"a": "```json 1 ```"}'' = Inr (PDict [(''a'', PStr ''```json 1 ```'')])
   \<and> generate_json_extract json_loads ''{"a": "```json 1 ```"}''
       = Inr (PDict [(''a'', PStr ''```json 1 ```'')])\<close>
proof -
  have h1: \<open>json_loads '' {"a": "b"} '' = Inr (PDict [(''a'', PStr ''b'')])\<close>
    by (simp add: json_eval)
  have h2: \<open>json_loads (strip '' {"a": "b"} '') = Inr (PDict [(''a'', PStr ''b'')])\<close>
    by (simp add: json_eval strip_def isspace_def)
  have h3: \<open>\<not> contains ''```'' '' {"a": "b"} ''\<close>
    by simp
  have h4: \<open>json_loads (fence_labeled '' {"a": "b"} '') = Inl (JSONDecodeError ''Expecting value'')\<close>
    by (simp add: json_eval fence_labeled_def)
  have h5: \<open>json_loads (fence_unlabeled '' {"a": "b"} '') = Inl (JSONDecodeError ''Expecting value'')\<close>
    by (simp add: json_eval fence_unlabeled_def)
  have h6: \<open>json_loads ''{"a": "```json 1 ```"}'' = Inr (PDict [(''a'', PStr ''```json 1 ```'')])\<close>
    by (simp add: json_eval)
  show ?thesis
    using extract_three_forms [OF h1 h2 h3 h4 h5] h1 h2 h3 h4 h5 h6 by simp
qed

text \<open>
  The claim as stated fails for a record whose text holds three backticks: the bare text
  parses to the record, while a fence around it is cut at the backticks inside the
  record, so that the labelled block of one record raises and the unlabelled block of
  another returns a different value.
\<close>

theorem extract_three_forms_counterexample:
  \<open>generate_json_extract json_loads ''{"a": "```"}'' = Inr (PDict [(''a'', PStr ''```'')])
   \<and> fenced_interior ''```json'' (fence_labeled ''{"a": "```"}'') = Inr ''{"a": "''
   \<and> generate_json_extract json_loads (fence_labeled ''{"a": "```"}'')
       = Inl (JSONDecodeError ''Expecting value'')
   \<and> generate_json_extract json_loads ''{"a": "```json 1 ```"}''
       = Inr (PDict [(''a'', PStr ''```json 1 ```'')])
   \<and> generate_json_extract json_loads (fence_unlabeled ''{"a": "```json 1 ```"}'')
       = Inr (PInt 1)\<close>
  by (simp add: extract_eval json_eval)

subsection \<open>The error of the extractor\<close>

text \<open>
  C6 (amended). The extractor fails with the error that carries the first 200 characters
  of the input exactly when the direct parse fails with a \<open>JSONDecodeError\<close> and the
  input contains no fence; in particular on the text \<open>not structured at all\<close>. Any other
  exception of the direct parse leaves the extractor as it is. (The decoder is taken
  not to raise the extractor's own error.)
\<close>

theorem extract_no_fence:
  assumes \<open>\<forall>s. lds s \<noteq> Inl (ValueError (''Could not parse JSON from response: '' @ take 200 text))\<close>
  shows \<open>(generate_json_extract lds text
            = Inl (ValueError (''Could not parse JSON from response: '' @ take 200 text))
          \<longleftrightarrow> (\<exists>m. lds text = Inl (JSONDecodeError m)) \<and> \<not> contains ''```'' text)
       \<and> (\<forall>e. lds text = Inl e \<and> \<not> is_decode_error e \<longrightarrow> generate_json_extract lds text = Inl e)\<close>
proof (cases "lds text")
  case (Inr v)
  then show ?thesis by (simp add: generate_json_extract_def)
next
  case (Inl e)
  have l: \<open>contains ''```json'' text \<Longrightarrow> contains ''```'' text\<close>
    by (rule label_has_fence)
  show ?thesis
  proof (cases e)
    case (JSONDecodeError m)
    then show ?thesis using Inl l assms
      by (auto simp: generate_json_extract_def split: sum.splits dest: fenced_interior_error)
  qed (use Inl assms in \<open>auto simp: generate_json_extract_def\<close>)
qed

theorem extract_no_fence_witness:
  \<open>(\<forall>s. json_loads s \<noteq> Inl (ValueError (''Could not parse JSON from response: ''
        @ take 200 ''not structured at all'')))
   \<and> json_loads ''not structured at all'' = Inl (JSONDecodeError ''Expecting value'')
   \<and> generate_json_extract json_loads ''not structured at all''
       = Inl (ValueError ''Could not parse JSON from response: not structured at all'')
   \<and> generate_json_extract (\<lambda>s. Inl (RecursionError ''maximum recursion depth exceeded''))
        ''not structured at all''
       = Inl (RecursionError ''maximum recursion depth exceeded'')\<close>
proof -
  have a: \<open>\<forall>s. json_loads s \<noteq> Inl (ValueError (''Could not parse JSON from response: ''
        @ take 200 ''not structured at all''))\<close>
    using json_loads_decode_error by fastforce
  have b: \<open>json_loads ''not structured at all'' = Inl (JSONDecodeError ''Expecting value'')\<close>
    by (simp add: json_eval)
  have c: \<open>\<forall>s. (\<lambda>s. Inl (RecursionError ''maximum recursion depth exceeded'') :: error + pyval) s
      \<noteq> Inl (ValueError (''Could not parse JSON from response: ''
        @ take 200 ''not structured at all''))\<close>
    by simp
  show ?thesis
    using extract_no_fence [OF a] extract_no_fence [OF c] a b by simp
qed

text \<open>
  With a fence in the input none of the three strategies recovers a record here, and
  the failure is the decoder's own error, which does not carry the input.
\<close>

theorem extract_no_fence_counterexample:
  \<open>isl (json_loads ''```json oops```'')
   \<and> fenced_interior ''```json'' ''```json oops```'' = Inr ''oops''
   \<and> isl (json_loads ''oops'')
   \<and> fenced_interior ''```'' ''```json oops```'' = Inr ''json oops''
   \<and> isl (json_loads ''json oops'')
   \<and> generate_json_extract json_loads ''```json oops```'' = Inl (JSONDecodeError ''Expecting value'')\<close>
  by (simp add: extract_eval json_eval)

section \<open>The dataset queries\<close>

lemma ensure_loaded_state:
  "ensure_loaded files dl = (Inr df, dl') \<Longrightarrow> loader_df dl' = Some df"
  by (auto simp: ensure_loaded_def load_def Let_def split: option.splits csv.splits)

text \<open>
  C9. \<open>filter_low_ctr\<close> returns the loaded rows whose click-through-rate is strictly
  below the threshold, in their order and nothing else; of three rows with the rates
  0.01, 0.012 and 0.015 and the threshold 0.012 it returns the first only.
\<close>

theorem filter_low_ctr_strict:
  assumes "ensure_loaded files dl = (Inr df, dl')"
  shows "filter_low_ctr files dl t = (Inr (filter (\<lambda>r. ctr r < t) df), dl')
       \<and> loader_df dl' = Some df
       \<and> subseq (filter (\<lambda>r. ctr r < t) df) df
       \<and> (\<forall>r \<in> set df. r \<in> set (filter (\<lambda>r. ctr r < t) df) \<longleftrightarrow> ctr r < t)
       \<and> (\<forall>r1 r2 r3. df = [r1, r2, r3] \<and> ctr r1 = 1/100 \<and> ctr r2 = 12/1000 \<and> ctr r3 = 15/1000
            \<longrightarrow> filter_low_ctr files dl (12/1000) = (Inr [r1], dl'))"
  using assms ensure_loaded_state [OF assms]
  by (auto simp: filter_low_ctr_def)

lemma ctr_rows_loaded:
  "ensure_loaded (example_files ctr_rows) (DataLoader_init ''ads.csv'' False 100)
   = (Inr ctr_rows, (DataLoader_init ''ads.csv'' False 100)\<lparr>loader_df := Some ctr_rows\<rparr>)"
  by (simp add: ensure_loaded_def load_def Let_def DataLoader_init_def example_files_def ctr_rows_def example_row_def)

theorem filter_low_ctr_strict_witness:
  "filter_low_ctr (example_files ctr_rows) (DataLoader_init ''ads.csv'' False 100) (12/1000)
   = (Inr [example_row ''A'' 1 10 5 1000 10 (1/100)],
      (DataLoader_init ''ads.csv'' False 100)\<lparr>loader_df := Some ctr_rows\<rparr>)"
  using filter_low_ctr_strict [OF ctr_rows_loaded, of "12/1000"]
  by (simp add: ctr_rows_def example_row_def)















section \<open>The reasoning stages\<close>

lemma think_json_world:
  "think_json E cfg t w = (r, w') \<Longrightarrow>
   \<exists>n. w' = w\<lparr>calls := n\<rparr> \<and> calls w \<le> n \<and> n \<le> Suc (calls w)"
  by (auto simp: think_json_def generate_json_def generate_def
      split: sum.splits if_splits prod.splits intro: exI [of _ "calls w"])

lemma think_json_fails:
  assumes "\<forall>n. isl (llm E n)"
  shows "\<exists>e w'. think_json E cfg t w = (Inl e, w') \<and> str_of_error e \<noteq> []"
proof -
  obtain m where m: "llm E (calls w) = Inl m"
    using assms by (metis isl_def)
  show ?thesis
    by (cases cfg; cases "truthy t")
       (simp_all add: think_json_def generate_json_def generate_def m)
qed

lemma slice_iter_length:
  "py_slice n v = Inr s \<Longrightarrow> py_iter s = Inr xs \<Longrightarrow> length xs \<le> n"
  by (cases v) auto

lemma creative_loop_length:
  "creative_loop E cfg perf summary cs acc w = (Inr recs, w') \<Longrightarrow>
   length recs = length acc + length cs \<and> calls w \<le> calls w' \<and> calls w' \<le> calls w + length cs"
proof (induction cs arbitrary: acc w)
  case Nil
  then show ?case by simp
next
  case (Cons c cs)
  from Cons.prems obtain u where u: "creative_prompt E c perf summary = Inr u"
    by (auto split: sum.splits)
  obtain r w1 where t: "think_json E cfg (PFloat (Finite (8/10))) w = (r, w1)"
    by (cases "think_json E cfg (PFloat (Finite (8/10))) w") auto
  from think_json_world [OF t] have c1: "calls w \<le> calls w1" "calls w1 \<le> Suc (calls w)"
    by auto
  show ?case
  proof (cases r)
    case (Inr v)
    with Cons.prems u t have "creative_loop E cfg perf summary cs (acc @ [v]) w1 = (Inr recs, w')"
      by simp
    from Cons.IH [OF this] c1 show ?thesis by simp
  next
    case (Inl e)
    with Cons.prems u t obtain fb where "create_fallback_creative c = Inr fb"
      and "creative_loop E cfg perf summary cs (acc @ [fb]) w1 = (Inr recs, w')"
      by (auto split: sum.splits)
    from Cons.IH [OF this(2)] c1 show ?thesis by simp
  qed
qed

lemma creative_execute_cases:
  assumes "creative_execute E cfg task context w = (Inr result, w')"
  shows "(result = [(''status'', PStr ''info''),
                    (''message'', PStr ''No low-CTR campaigns found for optimization''),
                    (''recommendations'', PList [])] \<and> w' = w)
       \<or> (\<exists>v s campaigns recs perf.
             py_get (dget context ''analysis'' (PDict [])) ''low_ctr_campaigns'' (PList []) = Inr v
           \<and> py_slice 3 v = Inr s \<and> py_iter s = Inr campaigns
           \<and> creative_loop E cfg perf (dget context ''data_summary'' (PDict [])) campaigns [] w
               = (Inr recs, w')
           \<and> result = [(''status'', PStr ''success''),
                       (''recommendations'', PList recs),
                       (''count'', PInt (int (length recs)))])"
  using assms
  by (auto simp: creative_execute_def split: sum.splits if_splits prod.splits)

lemma creative_bound:
  assumes "creative_execute E cfg task context w = (Inr result, w')"
  shows "\<exists>recs. map_of result ''recommendations'' = Some (PList recs)
           \<and> length recs \<le> 3 \<and> calls w' \<le> calls w + 3
           \<and> (\<forall>a cs. dget context ''analysis'' (PDict []) = PDict a
                   \<and> map_of a ''low_ctr_campaigns'' = Some (PList cs)
                 \<longrightarrow> length recs = min 3 (length cs))"
  using creative_execute_cases [OF assms]
proof (elim disjE exE conjE)
  assume i: "result = [(''status'', PStr ''info''),
                    (''message'', PStr ''No low-CTR campaigns found for optimization''),
                    (''recommendations'', PList [])]" and w: "w' = w"
  have "\<forall>a cs. dget context ''analysis'' (PDict []) = PDict a
                   \<and> map_of a ''low_ctr_campaigns'' = Some (PList cs) \<longrightarrow> cs = []"
    using assms i
    by (auto simp: creative_execute_def split: sum.splits if_splits prod.splits)
  then show ?thesis using i w by auto
next
  fix v s campaigns recs perf
  assume g: "py_get (dget context ''analysis'' (PDict [])) ''low_ctr_campaigns'' (PList []) = Inr v"
    and s: "py_slice 3 v = Inr s" and i: "py_iter s = Inr campaigns"
    and l: "creative_loop E cfg perf (dget context ''data_summary'' (PDict [])) campaigns [] w
            = (Inr recs, w')"
    and r: "result = [(''status'', PStr ''success''),
                       (''recommendations'', PList recs),
                       (''count'', PInt (int (length recs)))]"
  have n: "length campaigns \<le> 3" using slice_iter_length [OF s i] .
  from creative_loop_length [OF l] have len: "length recs = length campaigns"
    and c: "calls w' \<le> calls w + length campaigns" by auto
  have "\<forall>a cs. dget context ''analysis'' (PDict []) = PDict a
                   \<and> map_of a ''low_ctr_campaigns'' = Some (PList cs)
                 \<longrightarrow> campaigns = take 3 cs"
    using g s i by auto
  then show ?thesis using r len c n by auto
qed

lemma creative_first_three:
  assumes "dget context ''analysis'' (PDict []) = PDict a"
    and "map_of a ''low_ctr_campaigns'' = Some (PList cs)"
    and "dget context' ''analysis'' (PDict []) = PDict a'"
    and "map_of a' ''low_ctr_campaigns'' = Some (PList (take 3 cs))"
    and "map_of a' ''creative_performance'' = map_of a ''creative_performance''"
    and "dget context' ''data_summary'' (PDict []) = dget context ''data_summary'' (PDict [])"
  shows "creative_execute E cfg task context w = creative_execute E cfg task context' w"
proof (cases "read_prompt E ''prompts/creative_generator.md''")
  case (Inl e)
  then show ?thesis by (simp add: creative_execute_def)
next
  case (Inr p)
  then show ?thesis using assms by (simp add: creative_execute_def)
qed


text \<open>
  C10. Whenever the creative stage returns, its list of recommendations has at most
  three entries and it has called the generation service at most three times, whatever
  the configuration; for a list of campaigns the list has one entry per campaign among
  the first three, and the stage returns the same on the first three campaigns alone
  (with the same creative performance and data summary, which go into every prompt).
\<close>

theorem creative_at_most_three:
  assumes "creative_execute E cfg task context w = (Inr result, w')"
  shows "(\<exists>recs. map_of result ''recommendations'' = Some (PList recs)
           \<and> length recs \<le> 3 \<and> calls w' \<le> calls w + 3
           \<and> (\<forall>a cs. dget context ''analysis'' (PDict []) = PDict a
                   \<and> map_of a ''low_ctr_campaigns'' = Some (PList cs)
                 \<longrightarrow> length recs = min 3 (length cs)))
       \<and> (\<forall>a cs context' a'.
             dget context ''analysis'' (PDict []) = PDict a
           \<and> map_of a ''low_ctr_campaigns'' = Some (PList cs)
           \<and> dget context' ''analysis'' (PDict []) = PDict a'
           \<and> map_of a' ''low_ctr_campaigns'' = Some (PList (take 3 cs))
           \<and> map_of a' ''creative_performance'' = map_of a ''creative_performance''
           \<and> dget context' ''data_summary'' (PDict []) = dget context ''data_summary'' (PDict [])
           \<longrightarrow> creative_execute E cfg task context' w = (Inr result, w'))"
proof -
  have "\<forall>a cs context' a'.
             dget context ''analysis'' (PDict []) = PDict a
           \<and> map_of a ''low_ctr_campaigns'' = Some (PList cs)
           \<and> dget context' ''analysis'' (PDict []) = PDict a'
           \<and> map_of a' ''low_ctr_campaigns'' = Some (PList (take 3 cs))
           \<and> map_of a' ''creative_performance'' = map_of a ''creative_performance''
           \<and> dget context' ''data_summary'' (PDict []) = dget context ''data_summary'' (PDict [])
           \<longrightarrow> creative_execute E cfg task context' w = (Inr result, w')"
    using creative_first_three assms by metis
  then show ?thesis using creative_bound [OF assms] by blast
qed

lemma four_campaigns_run:
  "creative_execute failing_env (PDict []) ''query''
     (campaigns_context [example_campaign ''A'', example_campaign ''B'',
                         example_campaign ''C'', example_campaign ''D''])
     initial_world
   = (Inr [(''status'', PStr ''success''),
           (''recommendations'', PList
              [projr (create_fallback_creative (example_campaign ''A'')),
               projr (create_fallback_creative (example_campaign ''B'')),
               projr (create_fallback_creative (example_campaign ''C''))]),
           (''count'', PInt 3)],
      initial_world\<lparr>calls := 3\<rparr>)"
  by (simp add: creative_execute_def failing_env_def read_prompt_def campaigns_context_def
      dget_def creative_prompt_def example_campaign_def think_json_def generate_json_def
      generate_def initial_world_def create_fallback_creative_def)

theorem creative_at_most_three_witness:
  "creative_execute failing_env (PDict []) ''query''
     (campaigns_context [example_campaign ''A'', example_campaign ''B'',
                         example_campaign ''C'', example_campaign ''D''])
     initial_world
   = (Inr [(''status'', PStr ''success''),
           (''recommendations'', PList
              [projr (create_fallback_creative (example_campaign ''A'')),
               projr (create_fallback_creative (example_campaign ''B'')),
               projr (create_fallback_creative (example_campaign ''C''))]),
           (''count'', PInt 3)],
      initial_world\<lparr>calls := 3\<rparr>)
   \<and> length [projr (create_fallback_creative (example_campaign ''A'')),
              projr (create_fallback_creative (example_campaign ''B'')),
              projr (create_fallback_creative (example_campaign ''C''))] \<le> 3
   \<and> calls (initial_world\<lparr>calls := 3\<rparr>) \<le> calls initial_world + 3"
  using creative_at_most_three [OF four_campaigns_run] four_campaigns_run
  by (simp add: initial_world_def)

section \<open>The data agent and the empty analysis\<close>

lemma perform_analysis_loaded:
  "agent_df w \<noteq> None \<Longrightarrow> perform_analysis E reqs w = (Inr [], w)"
  by (simp add: perform_analysis_def)

lemma dict_set_nonempty: "dict_set k v d \<noteq> []"
  by (cases d) auto

lemma perform_analysis_unloaded:
  assumes "agent_df w = None"
    and "wanted ''campaign_performance'' reqs \<or> wanted ''creative_performance'' reqs
       \<or> wanted ''roas_timeline'' reqs \<or> wanted ''low_ctr_campaigns'' reqs"
  shows "perform_analysis E reqs w \<noteq> (Inr [], w')"
proof
  assume p: "perform_analysis E reqs w = (Inr [], w')"
  obtain a1 w1 where a1: "add_campaign_performance reqs [] w = (Inr a1, w1)"
    using p assms(1) by (auto simp: perform_analysis_def split: prod.splits sum.splits)
  obtain a2 w2 where a2: "add_creative_performance E reqs a1 w1 = (Inr a2, w2)"
    using p assms(1) a1 by (auto simp: perform_analysis_def split: prod.splits sum.splits)
  obtain a3 w3 where a3: "add_roas_timeline E reqs a2 w2 = (Inr a3, w3)"
    using p assms(1) a1 a2 by (auto simp: perform_analysis_def split: prod.splits sum.splits)
  have a4: "add_low_ctr E reqs a3 w3 = (Inr [], w')"
    using p assms(1) a1 a2 a3 by (simp add: perform_analysis_def)
  have n4: "\<not> wanted ''low_ctr_campaigns'' reqs" and e3: "a3 = []"
    using a4 by (auto simp: add_low_ctr_def dict_set_nonempty split: if_splits prod.splits sum.splits)
  have n3: "\<not> wanted ''roas_timeline'' reqs" and e2: "a2 = []"
    using a3 e3
    by (auto simp: add_roas_timeline_def dict_set_nonempty split: if_splits prod.splits sum.splits)
  have n2: "\<not> wanted ''creative_performance'' reqs" and e1: "a1 = []"
    using a2 e2
    by (auto simp: add_creative_performance_def dict_set_nonempty
        split: if_splits prod.splits sum.splits)
  have n1: "\<not> wanted ''campaign_performance'' reqs"
    using a1 e1
    by (auto simp: add_campaign_performance_def dict_set_nonempty split: if_splits)
  show False using assms(2) n1 n2 n3 n4 by simp
qed

lemma with_loader_agent_df:
  "with_loader q w = (r, w') \<Longrightarrow> agent_df w' = agent_df w"
  by (auto simp: with_loader_def split: option.splits prod.splits)

lemma data_execute_try_success:
  assumes "data_execute_try E cfg path mode n reqs w = (Inr r, w')"
  shows "map_of r ''status'' = Some (PStr ''success'') \<and> map_of r ''analysis'' = Some (PDict [])"
proof -
  let ?w0 = "w\<lparr>data_loader := Some (DataLoader_init path mode n)\<rparr>"
  obtain df w1 where l: "with_loader (load (datasets E)) ?w0 = (Inr df, w1)"
    using assms by (auto simp: data_execute_try_def Let_def split: prod.splits sum.splits)
  let ?w2 = "w1\<lparr>agent_df := Some df\<rparr>"
  obtain s w3 where s: "with_loader (get_summary (datasets E)) ?w2 = (Inr s, w3)"
    using assms l by (auto simp: data_execute_try_def Let_def split: prod.splits sum.splits)
  have "agent_df w3 = Some df"
    using with_loader_agent_df [OF s] by simp
  then have p: "perform_analysis E reqs w3 = (Inr [], w3)"
    by (simp add: perform_analysis_loaded)
  show ?thesis
    using assms l s p
    by (auto simp: data_execute_try_def Let_def split: prod.splits sum.splits)
qed

lemma data_execute_result:
  assumes "data_execute E cfg task ctx w = (out, w')"
  shows "\<exists>r. out = Inr r
       \<and> ((map_of r ''status'' = Some (PStr ''success'') \<and> map_of r ''analysis'' = Some (PDict []))
          \<or> (\<exists>m. r = [(''status'', PStr ''error''), (''error'', PStr m)]))"
  using assms
  by (auto simp: data_execute_def Let_def split: prod.splits sum.splits
      dest: data_execute_try_success)

lemma creative_on_empty_analysis:
  assumes "dget context ''analysis'' (PDict []) = PDict []"
  shows "creative_execute E cfg task context w =
          (case read_prompt E ''prompts/creative_generator.md'' of
             Inl e \<Rightarrow> (Inl e, w)
           | Inr system_prompt \<Rightarrow>
               (Inr [(''status'', PStr ''info''),
                     (''message'', PStr ''No low-CTR campaigns found for optimization''),
                     (''recommendations'', PList [])], w))"
  using assms by (simp add: creative_execute_def split: sum.splits)

text \<open>
  C4 (amended). The guard of the analysis step returns the empty dictionary whenever the
  dataframe is there; without a dataframe, and with one of the four analyses asked for,
  the step does not return the empty dictionary. So every result of the data agent has
  an empty analysis: a successful result holds the empty dictionary under \<open>analysis\<close>,
  an error result has no such key and the contexts take the empty default. The list of
  low-CTR campaigns that the creative stage reads is therefore empty, and the stage
  returns the result with status \<open>info\<close> and no recommendations when its template file
  can be read; when it cannot, the stage raises the error of the read and returns no
  result.
\<close>

theorem analysis_always_empty:
  assumes "data_execute E cfg task ctx w = (out, w')"
  shows "(\<forall>reqs v. agent_df v \<noteq> None \<longrightarrow> perform_analysis E reqs v = (Inr [], v))
       \<and> (\<forall>reqs v v'. agent_df v = None
              \<and> (wanted ''campaign_performance'' reqs \<or> wanted ''creative_performance'' reqs
                 \<or> wanted ''roas_timeline'' reqs \<or> wanted ''low_ctr_campaigns'' reqs)
            \<longrightarrow> perform_analysis E reqs v \<noteq> (Inr [], v'))
       \<and> (\<exists>r. out = Inr r
            \<and> (map_of r ''status'' = Some (PStr ''success'') \<longrightarrow> map_of r ''analysis'' = Some (PDict []))
            \<and> dget r ''analysis'' (PDict []) = PDict []
            \<and> dget (prepare_insight_context plan_result r) ''analysis'' (PDict []) = PDict []
            \<and> dget (prepare_eval_context insight_result r) ''analysis'' (PDict []) = PDict []
            \<and> dget (prepare_creative_context r) ''analysis'' (PDict []) = PDict []
            \<and> py_get (dget (prepare_creative_context r) ''analysis'' (PDict []))
                 ''low_ctr_campaigns'' (PList []) = Inr (PList [])
            \<and> (\<forall>E' cfg' task' w2 p.
                  read_prompt E' ''prompts/creative_generator.md'' = Inr p \<longrightarrow>
                  creative_execute E' cfg' task' (prepare_creative_context r) w2 =
                    (Inr [(''status'', PStr ''info''),
                          (''message'', PStr ''No low-CTR campaigns found for optimization''),
                          (''recommendations'', PList [])], w2))
            \<and> (\<forall>E' cfg' task' w2 e.
                  read_prompt E' ''prompts/creative_generator.md'' = Inl e \<longrightarrow>
                  creative_execute E' cfg' task' (prepare_creative_context r) w2 = (Inl e, w2)))"
proof -
  obtain r where r: "out = Inr r"
    and c: "(map_of r ''status'' = Some (PStr ''success'') \<and> map_of r ''analysis'' = Some (PDict []))
          \<or> (\<exists>m. r = [(''status'', PStr ''error''), (''error'', PStr m)])"
    using data_execute_result [OF assms] by blast
  have a: "dget r ''analysis'' (PDict []) = PDict []"
    using c by (auto simp: dget_def)
  have b: "map_of r ''status'' = Some (PStr ''success'') \<longrightarrow> map_of r ''analysis'' = Some (PDict [])"
    using c by auto
  have d: "dget (prepare_creative_context r) ''analysis'' (PDict []) = PDict []"
    using a by (simp add: prepare_creative_context_def dget_def)
  have e: "dget (prepare_insight_context plan_result r) ''analysis'' (PDict []) = PDict []"
    "dget (prepare_eval_context insight_result r) ''analysis'' (PDict []) = PDict []"
    using a by (simp_all add: prepare_insight_context_def prepare_eval_context_def dget_def)
  have f: "\<forall>reqs v v'. agent_df v = None
              \<and> (wanted ''campaign_performance'' reqs \<or> wanted ''creative_performance'' reqs
                 \<or> wanted ''roas_timeline'' reqs \<or> wanted ''low_ctr_campaigns'' reqs)
            \<longrightarrow> perform_analysis E reqs v \<noteq> (Inr [], v')"
    using perform_analysis_unloaded by blast
  show ?thesis
    using r a b d e f creative_on_empty_analysis [OF d]
    by (auto simp: perform_analysis_loaded)
qed


lemma ctr_rows_sorted: "sort_key date ctr_rows = ctr_rows"
  by (simp add: ctr_rows_def example_row_def)

lemma ctr_rows_length: "length ctr_rows = 3"
  by (simp add: ctr_rows_def)

lemma loaded_run:
  "data_execute loaded_env (PDict []) ''query'' example_data_context initial_world
   = (Inr [(''status'', PStr ''success''),
           (''data_summary'', generate_summary ctr_rows),
           (''analysis'', PDict []),
           (''structured_findings'', PDict
              [(''summary'', generate_summary ctr_rows),
               (''key_segments'', PDict []),
               (''trend_observations'', PList [PStr ''Data loaded successfully'']),
               (''reasoning'', PStr ''Basic data analysis completed'')]),
           (''record_count'', PInt 3)],
      initial_world\<lparr>calls := 1,
        data_loader := Some ((DataLoader_init ''ads.csv'' False 100)\<lparr>loader_df := Some ctr_rows\<rparr>),
        agent_df := Some ctr_rows\<rparr>)"
  by (simp add: data_execute_def data_execute_try_def Let_def example_data_context_def
      with_loader_def load_def loaded_env_def failing_env_def example_files_def
      DataLoader_init_def ctr_rows_sorted ctr_rows_length get_summary_def ensure_loaded_def
      perform_analysis_def structure_findings_def read_prompt_def think_json_def
      generate_json_def generate_def initial_world_def)

theorem analysis_always_empty_witness:
  "data_execute loaded_env (PDict []) ''query'' example_data_context initial_world
   = (Inr [(''status'', PStr ''success''),
           (''data_summary'', generate_summary ctr_rows),
           (''analysis'', PDict []),
           (''structured_findings'', PDict
              [(''summary'', generate_summary ctr_rows),
               (''key_segments'', PDict []),
               (''trend_observations'', PList [PStr ''Data loaded successfully'']),
               (''reasoning'', PStr ''Basic data analysis completed'')]),
           (''record_count'', PInt 3)],
      initial_world\<lparr>calls := 1,
        data_loader := Some ((DataLoader_init ''ads.csv'' False 100)\<lparr>loader_df := Some ctr_rows\<rparr>),
        agent_df := Some ctr_rows\<rparr>)
   \<and> creative_execute loaded_env (PDict []) ''query''
        (prepare_creative_context
           [(''status'', PStr ''success''),
            (''data_summary'', generate_summary ctr_rows),
            (''analysis'', PDict []),
            (''structured_findings'', PDict
               [(''summary'', generate_summary ctr_rows),
                (''key_segments'', PDict []),
                (''trend_observations'', PList [PStr ''Data loaded successfully'']),
                (''reasoning'', PStr ''Basic data analysis completed'')]),
            (''record_count'', PInt 3)])
        initial_world
      = (Inr [(''status'', PStr ''info''),
              (''message'', PStr ''No low-CTR campaigns found for optimization''),
              (''recommendations'', PList [])], initial_world)
   \<and> agent_df initial_world = None \<and> wanted ''campaign_performance'' []
   \<and> perform_analysis loaded_env [] initial_world
      = (Inl (AttributeError ''NoneType object has no attribute''), initial_world)"
proof -
  let ?r = "[(''status'', PStr ''success''),
            (''data_summary'', generate_summary ctr_rows),
            (''analysis'', PDict []),
            (''structured_findings'', PDict
               [(''summary'', generate_summary ctr_rows),
                (''key_segments'', PDict []),
                (''trend_observations'', PList [PStr ''Data loaded successfully'']),
                (''reasoning'', PStr ''Basic data analysis completed'')]),
            (''record_count'', PInt 3)]"
  let ?info = "[(''status'', PStr ''info''),
                (''message'', PStr ''No low-CTR campaigns found for optimization''),
                (''recommendations'', PList [])]"
  have rp: "read_prompt loaded_env ''prompts/creative_generator.md'' = Inr ''template''"
    by (simp add: read_prompt_def loaded_env_def failing_env_def)
  from analysis_always_empty [OF loaded_run, where plan_result = "[]" and insight_result = "[]"]
  obtain r where r: "(Inr ?r :: error + pydict) = Inr r"
    and j: "\<forall>E' cfg' task' w2 p.
                read_prompt E' ''prompts/creative_generator.md'' = Inr p \<longrightarrow>
                creative_execute E' cfg' task' (prepare_creative_context r) w2 = (Inr ?info, w2)"
    by (elim conjE exE) (rule that)
  have i: "\<forall>E' cfg' task' w2 p.
                read_prompt E' ''prompts/creative_generator.md'' = Inr p \<longrightarrow>
                creative_execute E' cfg' task' (prepare_creative_context ?r) w2 = (Inr ?info, w2)"
    using r j by simp
  have c: "creative_execute loaded_env (PDict []) ''query'' (prepare_creative_context ?r)
             initial_world = (Inr ?info, initial_world)"
    using i [rule_format, OF rp] .
  have g: "agent_df initial_world = None \<and> wanted ''campaign_performance'' []
         \<and> perform_analysis loaded_env [] initial_world
            = (Inl (AttributeError ''NoneType object has no attribute''), initial_world)"
    by (simp add: initial_world_def wanted_def perform_analysis_def
        add_campaign_performance_def add_creative_performance_def with_loader_def)
  show ?thesis using loaded_run c g by simp
qed

text \<open>
  The claim as stated fails where the template of the creative stage is missing: the
  dataset loads and the analysis is empty, but the creative stage raises instead of
  returning the result with status \<open>info\<close>.
\<close>

theorem analysis_always_empty_counterexample:
  "(\<exists>r w'. data_execute no_creative_template_env (PDict []) ''query'' example_data_context
              initial_world = (Inr r, w')
      \<and> map_of r ''status'' = Some (PStr ''success'')
      \<and> map_of r ''analysis'' = Some (PDict [])
      \<and> creative_execute no_creative_template_env (PDict []) ''query''
            (prepare_creative_context r) w'
          = (Inl (FileNotFoundError
                ''[Errno 2] No such file or directory: prompts/creative_generator.md''), w'))"
  by (simp add: data_execute_def data_execute_try_def Let_def example_data_context_def
      with_loader_def load_def no_creative_template_env_def loaded_env_def failing_env_def
      example_files_def DataLoader_init_def ctr_rows_sorted ctr_rows_length get_summary_def
      ensure_loaded_def perform_analysis_def structure_findings_def read_prompt_def
      think_json_def generate_json_def generate_def initial_world_def creative_execute_def)

section \<open>The stages when the generation service fails\<close>

lemma fallback_plan_nonempty: "truthy (create_fallback_plan task context)"
  by (simp add: create_fallback_plan_def)

lemma fallback_hypotheses_nonempty: "truthy (create_fallback_hypotheses task context)"
  by (simp add: create_fallback_hypotheses_def)

lemma planner_partial:
  assumes "\<forall>n. isl (llm E n)" and "prompts E ''prompts/planner.md'' \<noteq> None"
    and "\<not> isl (dumps E (PDict context))"
  shows "\<exists>msg w'. planner_execute E cfg task context w =
           (Inr [(''status'', PStr ''partial''),
                 (''plan'', create_fallback_plan task context),
                 (''error'', PStr msg)], w') \<and> msg \<noteq> []"
proof -
  obtain e w' where "think_json E cfg (PFloat (Finite (3/10))) w = (Inl e, w')"
    and "str_of_error e \<noteq> []"
    using think_json_fails [OF assms(1)] by blast
  moreover obtain t where "dumps E (PDict context) = Inr t"
    using assms(3) by (cases "dumps E (PDict context)") auto
  ultimately show ?thesis using assms(2)
    by (auto simp: planner_execute_def read_prompt_def)
qed

lemma insight_partial:
  assumes "\<forall>n. isl (llm E n)" and "prompts E ''prompts/insight_agent.md'' \<noteq> None"
    and "\<not> isl (dumps E (PDict context))"
  shows "\<exists>msg w'. insight_execute E cfg task context w =
           (Inr [(''status'', PStr ''partial''),
                 (''hypotheses'', create_fallback_hypotheses task context),
                 (''error'', PStr msg)], w') \<and> msg \<noteq> []"
proof -
  obtain e w' where "think_json E cfg (PFloat (Finite (7/10))) w = (Inl e, w')"
    and "str_of_error e \<noteq> []"
    using think_json_fails [OF assms(1)] by blast
  moreover obtain t where "dumps E (PDict context) = Inr t"
    using assms(3) by (cases "dumps E (PDict context)") auto
  ultimately show ?thesis using assms(2)
    by (auto simp: insight_execute_def read_prompt_def)
qed

lemma fallback_entry_total: "is_dict h \<Longrightarrow> \<exists>v. fallback_evaluation_entry h = Inr v"
  by (cases h) (simp_all add: fallback_evaluation_entry_def)

lemma map_result_total:
  "list_all (\<lambda>x. \<exists>y. f x = Inr y) xs \<Longrightarrow> \<exists>ys. map_result f xs = Inr ys \<and> length ys = length xs"
  by (induction xs) auto

lemma fallback_evaluation_total:
  assumes "list_all is_dict hs"
  shows "\<exists>fb. create_fallback_evaluation (PList hs) = Inr fb \<and> truthy fb"
proof -
  have "list_all is_dict (take 3 hs)"
    using assms by (auto simp: list_all_iff dest: in_set_takeD)
  then have "list_all (\<lambda>h. \<exists>v. fallback_evaluation_entry h = Inr v) (take 3 hs)"
    by (auto simp: list_all_iff fallback_entry_total)
  then obtain ys where "map_result fallback_evaluation_entry (take 3 hs) = Inr ys"
    using map_result_total by blast
  then show ?thesis by (simp add: create_fallback_evaluation_def)
qed

lemma evaluator_partial:
  assumes "\<forall>n. isl (llm E n)" and "prompts E ''prompts/evaluator.md'' \<noteq> None"
    and "py_get (dget context ''hypotheses'' (PDict [])) ''hypotheses'' (PList []) = Inr (PList hs)"
    and "list_all is_dict hs"
    and "evaluator_prompt E (PList hs) (dget context ''data_summary'' (PDict []))
           (dget context ''analysis'' (PDict [])) = Inr ()"
  shows "\<exists>msg fb w'. evaluator_execute E cfg task context w =
           (Inr [(''status'', PStr ''partial''),
                 (''evaluation'', fb),
                 (''error'', PStr msg)], w')
         \<and> msg \<noteq> [] \<and> truthy fb \<and> create_fallback_evaluation (PList hs) = Inr fb"
proof -
  obtain e w' where "think_json E cfg (PFloat (Finite (2/10))) w = (Inl e, w')"
    and "str_of_error e \<noteq> []"
    using think_json_fails [OF assms(1)] by blast
  moreover obtain fb where "create_fallback_evaluation (PList hs) = Inr fb" and "truthy fb"
    using fallback_evaluation_total [OF assms(4)] by blast
  ultimately show ?thesis using assms(2,3,5)
    by (auto simp: evaluator_execute_def read_prompt_def)
qed

lemma creative_prompt_dict: "creative_prompt E c perf summary = Inr u \<Longrightarrow> is_dict c"
  by (cases c) (simp_all add: creative_prompt_def)

lemma fallback_creative_total: "is_dict c \<Longrightarrow> \<exists>fb. create_fallback_creative c = Inr fb"
  by (cases c) (simp_all add: create_fallback_creative_def)

lemma creative_loop_fallbacks:
  assumes "\<forall>n. isl (llm E n)"
  shows "list_all (\<lambda>c. creative_prompt E c perf summary = Inr ()) cs \<Longrightarrow>
         \<exists>w'. creative_loop E cfg perf summary cs acc w =
                (Inr (acc @ map (\<lambda>c. projr (create_fallback_creative c)) cs), w')"
proof (induction cs arbitrary: acc w)
  case Nil
  then show ?case by simp
next
  case (Cons c cs)
  obtain e w1 where t: "think_json E cfg (PFloat (Finite (8/10))) w = (Inl e, w1)"
    using think_json_fails [OF assms] by blast
  have p: "creative_prompt E c perf summary = Inr ()"
    and rest: "list_all (\<lambda>c. creative_prompt E c perf summary = Inr ()) cs"
    using Cons.prems by simp_all
  obtain fb where fb: "create_fallback_creative c = Inr fb"
    using fallback_creative_total creative_prompt_dict [OF p] by blast
  obtain w' where "creative_loop E cfg perf summary cs ((acc @ [fb])) w1 =
      (Inr ((acc @ [fb]) @ map (\<lambda>c. projr (create_fallback_creative c)) cs), w')"
    using Cons.IH [OF rest] by blast
  then show ?case using t p fb by simp
qed

lemma creative_success_fallbacks:
  assumes "\<forall>n. isl (llm E n)" and "prompts E ''prompts/creative_generator.md'' \<noteq> None"
    and "dget context ''analysis'' (PDict []) = PDict a"
    and "map_of a ''low_ctr_campaigns'' = Some (PList cs)" and "cs \<noteq> []"
    and "py_get (PDict a) ''creative_performance'' (PDict []) = Inr perf"
    and "list_all (\<lambda>c. creative_prompt E c perf (dget context ''data_summary'' (PDict [])) = Inr ())
           (take 3 cs)"
  shows "\<exists>w'. creative_execute E cfg task context w =
           (Inr [(''status'', PStr ''success''),
                 (''recommendations'', PList (map (\<lambda>c. projr (create_fallback_creative c)) (take 3 cs))),
                 (''count'', PInt (int (min 3 (length cs))))], w')"
proof -
  obtain w' where "creative_loop E cfg perf (dget context ''data_summary'' (PDict [])) (take 3 cs) [] w =
      (Inr ([] @ map (\<lambda>c. projr (create_fallback_creative c)) (take 3 cs)), w')"
    using creative_loop_fallbacks [OF assms(1) assms(7)] by blast
  then show ?thesis using assms(2-6)
    by (auto simp: creative_execute_def read_prompt_def min_def)
qed

text \<open>
  C2 (amended). Let every call of the generation service raise. The planner and the
  insight agent, when their template can be read and their context can be written as
  JSON text for the prompt, return the status \<open>partial\<close> with their fallback record,
  which is not empty, and a non-empty error message, whatever the configuration. So
  does the evaluator when the hypotheses of its context are a list of dictionaries and
  the three parts of its prompt can be written as JSON text. The creative generator
  does not: with its template readable and a non-empty list of low-CTR campaigns for
  each of which the prompt can be built (a dictionary whose name and message can be
  written as text and whose rate can be formatted as a float, the creative performance
  and the data summary written as JSON text) it returns the status \<open>success\<close> with one
  fallback record for each of the first three campaigns and no error message. The
  prompts are built before the \<open>try\<close> statements, so a stage raises where the template
  is missing or a part of the prompt cannot be written.
\<close>

theorem stages_when_generation_fails:
  assumes "\<forall>n. isl (llm E n)"
  shows "(prompts E ''prompts/planner.md'' \<noteq> None \<and> \<not> isl (dumps E (PDict context)) \<longrightarrow>
            (\<exists>msg w'. planner_execute E cfg task context w =
               (Inr [(''status'', PStr ''partial''),
                     (''plan'', create_fallback_plan task context),
                     (''error'', PStr msg)], w') \<and> msg \<noteq> [])
            \<and> truthy (create_fallback_plan task context))
       \<and> (prompts E ''prompts/insight_agent.md'' \<noteq> None \<and> \<not> isl (dumps E (PDict context)) \<longrightarrow>
            (\<exists>msg w'. insight_execute E cfg task context w =
               (Inr [(''status'', PStr ''partial''),
                     (''hypotheses'', create_fallback_hypotheses task context),
                     (''error'', PStr msg)], w') \<and> msg \<noteq> [])
            \<and> truthy (create_fallback_hypotheses task context))
       \<and> (prompts E ''prompts/evaluator.md'' \<noteq> None
            \<and> py_get (dget context ''hypotheses'' (PDict [])) ''hypotheses'' (PList []) = Inr (PList hs)
            \<and> list_all is_dict hs
            \<and> evaluator_prompt E (PList hs) (dget context ''data_summary'' (PDict []))
                  (dget context ''analysis'' (PDict [])) = Inr () \<longrightarrow>
            (\<exists>msg fb w'. evaluator_execute E cfg task context w =
               (Inr [(''status'', PStr ''partial''),
                     (''evaluation'', fb),
                     (''error'', PStr msg)], w')
             \<and> msg \<noteq> [] \<and> truthy fb \<and> create_fallback_evaluation (PList hs) = Inr fb))
       \<and> (prompts E ''prompts/creative_generator.md'' \<noteq> None
            \<and> dget context ''analysis'' (PDict []) = PDict a
            \<and> map_of a ''low_ctr_campaigns'' = Some (PList cs) \<and> cs \<noteq> []
            \<and> py_get (PDict a) ''creative_performance'' (PDict []) = Inr perf
            \<and> list_all (\<lambda>c. creative_prompt E c perf (dget context ''data_summary'' (PDict []))
                               = Inr ()) (take 3 cs) \<longrightarrow>
            (\<exists>w'. creative_execute E cfg task context w =
               (Inr [(''status'', PStr ''success''),
                     (''recommendations'', PList (map (\<lambda>c. projr (create_fallback_creative c)) (take 3 cs))),
                     (''count'', PInt (int (min 3 (length cs))))], w')))"
proof (intro conjI impI)
  assume "prompts E ''prompts/planner.md'' \<noteq> None \<and> \<not> isl (dumps E (PDict context))"
  then show "\<exists>msg w'. planner_execute E cfg task context w =
               (Inr [(''status'', PStr ''partial''),
                     (''plan'', create_fallback_plan task context),
                     (''error'', PStr msg)], w') \<and> msg \<noteq> []"
    using planner_partial [OF assms] by simp
next
  show "truthy (create_fallback_plan task context)"
    by (rule fallback_plan_nonempty)
next
  assume "prompts E ''prompts/insight_agent.md'' \<noteq> None \<and> \<not> isl (dumps E (PDict context))"
  then show "\<exists>msg w'. insight_execute E cfg task context w =
               (Inr [(''status'', PStr ''partial''),
                     (''hypotheses'', create_fallback_hypotheses task context),
                     (''error'', PStr msg)], w') \<and> msg \<noteq> []"
    using insight_partial [OF assms] by simp
next
  show "truthy (create_fallback_hypotheses task context)"
    by (rule fallback_hypotheses_nonempty)
next
  assume "prompts E ''prompts/evaluator.md'' \<noteq> None
            \<and> py_get (dget context ''hypotheses'' (PDict [])) ''hypotheses'' (PList []) = Inr (PList hs)
            \<and> list_all is_dict hs
            \<and> evaluator_prompt E (PList hs) (dget context ''data_summary'' (PDict []))
                  (dget context ''analysis'' (PDict [])) = Inr ()"
  then show "\<exists>msg fb w'. evaluator_execute E cfg task context w =
               (Inr [(''status'', PStr ''partial''),
                     (''evaluation'', fb),
                     (''error'', PStr msg)], w')
             \<and> msg \<noteq> [] \<and> truthy fb \<and> create_fallback_evaluation (PList hs) = Inr fb"
    using evaluator_partial [OF assms] by simp
next
  assume "prompts E ''prompts/creative_generator.md'' \<noteq> None
            \<and> dget context ''analysis'' (PDict []) = PDict a
            \<and> map_of a ''low_ctr_campaigns'' = Some (PList cs) \<and> cs \<noteq> []
            \<and> py_get (PDict a) ''creative_performance'' (PDict []) = Inr perf
            \<and> list_all (\<lambda>c. creative_prompt E c perf (dget context ''data_summary'' (PDict []))
                               = Inr ()) (take 3 cs)"
  then show "\<exists>w'. creative_execute E cfg task context w =
               (Inr [(''status'', PStr ''success''),
                     (''recommendations'', PList (map (\<lambda>c. projr (create_fallback_creative c)) (take 3 cs))),
                     (''count'', PInt (int (min 3 (length cs))))], w')"
    using creative_success_fallbacks [OF assms] by simp
qed


lemma failing_env_fails: "\<forall>n. isl (llm failing_env n)"
  by (simp add: failing_env_def)

lemmas stage_eval =
  read_prompt_def failing_env_def think_json_def generate_json_def generate_def
  initial_world_def dget_def example_stage_context_def

theorem stages_when_generation_fails_witness:
  "planner_execute failing_env (PDict []) ''query'' example_stage_context initial_world
     = (Inr [(''status'', PStr ''partial''),
             (''plan'', create_fallback_plan ''query'' example_stage_context),
             (''error'', PStr ''LLM generation failed: service unavailable'')],
        initial_world\<lparr>calls := 1\<rparr>)
   \<and> insight_execute failing_env (PDict []) ''query'' example_stage_context initial_world
     = (Inr [(''status'', PStr ''partial''),
             (''hypotheses'', create_fallback_hypotheses ''query'' example_stage_context),
             (''error'', PStr ''LLM generation failed: service unavailable'')],
        initial_world\<lparr>calls := 1\<rparr>)
   \<and> evaluator_execute failing_env (PDict []) ''query'' example_stage_context initial_world
     = (Inr [(''status'', PStr ''partial''),
             (''evaluation'', projr (create_fallback_evaluation (PList [PDict [(''id'', PStr ''h1'')]]))),
             (''error'', PStr ''LLM generation failed: service unavailable'')],
        initial_world\<lparr>calls := 1\<rparr>)
   \<and> creative_execute failing_env (PDict []) ''query'' example_stage_context initial_world
     = (Inr [(''status'', PStr ''success''),
             (''recommendations'', PList [projr (create_fallback_creative (example_campaign ''A''))]),
             (''count'', PInt 1)],
        initial_world\<lparr>calls := 1\<rparr>)"
  using stages_when_generation_fails [OF failing_env_fails, of example_stage_context
      "PDict []" "''query''" initial_world "[PDict [(''id'', PStr ''h1'')]]"
      "[(''low_ctr_campaigns'', PList [example_campaign ''A''])]" "[example_campaign ''A'']"
      "PDict []"]
  by (simp add: stage_eval planner_execute_def insight_execute_def evaluator_execute_def
      evaluator_prompt_def creative_execute_def create_fallback_evaluation_def
      fallback_evaluation_entry_def creative_prompt_def create_fallback_creative_def
      example_campaign_def)

text \<open>
  The claim as stated fails for the creative generator: with one campaign and a failing
  service its result has the status \<open>success\<close> and no key \<open>error\<close>. It also fails
  where a prompt cannot be built: a campaign whose rate is an integer beyond the range
  of the floats makes the creative generator raise, and a context that cannot be
  written as JSON text makes the planner raise.
\<close>

theorem stages_when_generation_fails_counterexample:
  "llm failing_env 0 = Inl ''service unavailable''
   \<and> creative_execute failing_env (PDict []) ''query''
        (campaigns_context [example_campaign ''A'']) initial_world
     = (Inr [(''status'', PStr ''success''),
             (''recommendations'', PList [projr (create_fallback_creative (example_campaign ''A''))]),
             (''count'', PInt 1)],
        initial_world\<lparr>calls := 1\<rparr>)
   \<and> creative_execute failing_env (PDict []) ''query''
        (campaigns_context [PDict [(''campaign_name'', PStr ''A''), (''ctr'', PInt (2 ^ 1024))]])
        initial_world
     = (Inl (OverflowError ''int too large to convert to float''), initial_world)
   \<and> planner_execute
        (failing_env\<lparr>dumps := (\<lambda>v. Inl (ValueError ''Circular reference detected''))\<rparr>)
        (PDict []) ''query'' example_stage_context initial_world
     = (Inl (ValueError ''Circular reference detected''), initial_world)"
  by (simp add: stage_eval creative_execute_def campaigns_context_def creative_prompt_def
      create_fallback_creative_def example_campaign_def float_convertible_def
      planner_execute_def)

section \<open>The pipeline\<close>

subsection \<open>What the agents leave untouched\<close>














subsection \<open>The recorded results\<close>


















subsection \<open>A run without the dataset\<close>













subsection \<open>The statuses of the stages\<close>





subsection \<open>A dataset path that does not resolve\<close>





end
